theory Spec2Isabelle
  imports Complex_Main
begin

section \<open>JavaScript values and string helpers\<close>

text \<open>
  Strings are character lists. A JavaScript string is falsy exactly when it is empty;
  a field that is \<open>undefined\<close> or \<open>null\<close> is \<open>None\<close>.
\<close>

definition truthy_str :: "string \<Rightarrow> bool" where
  "truthy_str s = (s \<noteq> [])"

definition truthy_opt :: "string option \<Rightarrow> bool" where
  "truthy_opt v = (case v of None \<Rightarrow> False | Some s \<Rightarrow> truthy_str s)"

text \<open>\<open>s.startsWith(p)\<close>.\<close>

definition startsWith :: "string \<Rightarrow> string \<Rightarrow> bool" where
  "startsWith s p = (take (length p) s = p)"

text \<open>\<open>s.split(c)\<close> for a one-character separator: the result is never empty.\<close>

fun js_split :: "char \<Rightarrow> string \<Rightarrow> string list" where
  "js_split c [] = [[]]"
| "js_split c (x # xs) =
     (if x = c then [] # js_split c xs
      else (case js_split c xs of
              [] \<Rightarrow> [[x]]
            | w # ws \<Rightarrow> (x # w) # ws))"

text \<open>\<open>s.includes(p)\<close>: \<open>p\<close> occurs in \<open>s\<close> as a contiguous block.\<close>

fun str_includes :: "string \<Rightarrow> string \<Rightarrow> bool" where
  "str_includes [] p = (p = [])"
| "str_includes (x # xs) p = (startsWith (x # xs) p \<or> str_includes xs p)"

text \<open>\<open>xs.includes(v)\<close> on an array.\<close>

definition arr_includes :: "'a list \<Rightarrow> 'a \<Rightarrow> bool" where
  "arr_includes xs v = (v \<in> set xs)"

text \<open>ASCII letters in lower case.\<close>

definition is_upper :: "char \<Rightarrow> bool" where
  "is_upper c = (c \<in> set ''ABCDEFGHIJKLMNOPQRSTUVWXYZ'')"

definition is_lower :: "char \<Rightarrow> bool" where
  "is_lower c = (c \<in> set ''abcdefghijklmnopqrstuvwxyz'')"

definition lower_char :: "char \<Rightarrow> char" where
  "lower_char c = (if is_upper c then char_of (of_char c + (32::nat)) else c)"

definition lower :: "string \<Rightarrow> string" where
  "lower s = map lower_char s"

text \<open>
  Two spellings of the same ObjectId: its 24 hexadecimal digits, compared without case
  (\<open>toString()\<close> gives the lower-case one).
\<close>

definition same_id :: "string \<Rightarrow> string \<Rightarrow> bool" where
  "same_id a b = (lower a = lower b)"

section \<open>Accounts and principals (models/User.js, middleware/authMiddleware.js)\<close>

type_synonym objectId = string

text \<open>
  A stored account. \<open>u_password\<close> is the stored hash; a field the document does not
  have is \<open>None\<close>. The remaining schema paths (lastLogin, profileImage, the reset
  token, updatedAt) are carried along in \<open>u_rest\<close>.
\<close>

record user =
  u_id :: objectId
  u_name :: string
  u_email :: string
  u_role :: string
  u_password :: "string option"
  u_phone :: "string option"
  u_department :: "string option"
  u_status :: "string option"
  u_permissions :: "string list option"
  u_isEmailVerified :: bool
  u_mustChangePassword :: bool
  u_createdBy :: "objectId option"
  u_createdAt :: int
  u_rest :: "(string \<times> string) list"

text \<open>The object \<open>authenticateToken\<close> attaches as \<open>req.user\<close>.\<close>

record principal =
  p_id :: objectId
  p_name :: string
  p_email :: string
  p_role :: string
  p_department :: "string option"
  p_permissions :: "string list option"
  p_status :: string

text \<open>The part of a request the middlewares read and write.\<close>

record request =
  authorization :: "string option"
  req_user :: "principal option"

text \<open>
  What a middleware or handler does last: \<open>res.status(n).json({success: false, message})\<close>
  or \<open>next()\<close>.
\<close>

datatype action = Send nat string | CallNext

text \<open>The allow/deny decision of a guard: it lets the request through or denies it with a status.\<close>

datatype decision = Allow | Deny nat

fun decision_of :: "action \<Rightarrow> decision" where
  "decision_of CallNext = Allow"
| "decision_of (Send n m) = Deny n"

datatype db_error = CastError

text \<open>
  An identifier the store can cast to an ObjectId: 24 hexadecimal digits. Any other
  string makes \<open>findById\<close> throw.
\<close>

definition hex_digit :: "char \<Rightarrow> bool" where
  "hex_digit c = (c \<in> set ''0123456789abcdefABCDEF'')"

definition castable :: "string \<Rightarrow> bool" where
  "castable i = (length i = 24 \<and> list_all hex_digit i)"

text \<open>\<open>User.findById(id)\<close>; \<open>findById(undefined)\<close> finds nothing.\<close>

definition findById :: "user list \<Rightarrow> objectId option \<Rightarrow> db_error + user option" where
  "findById store i =
     (case i of
        None \<Rightarrow> Inr None
      | Some k \<Rightarrow>
          if castable k then Inr (find (\<lambda>u. same_id (u_id u) k) store) else Inl CastError)"

text \<open>\<open>.select('-password')\<close>: the document comes back without the password path.\<close>

definition select_no_password :: "user \<Rightarrow> user" where
  "select_no_password u = u\<lparr>u_password := None\<rparr>"

subsection \<open>authenticateToken\<close>

text \<open>The token taken from the Authorization header (lines 10--16).\<close>

definition bearer_token :: "request \<Rightarrow> string option" where
  "bearer_token req =
     (case authorization req of
        None \<Rightarrow> None
      | Some h \<Rightarrow>
          if truthy_str h \<and> startsWith h ''Bearer''
          then (case js_split (CHR '' '') h of
                  _ # t # _ \<Rightarrow> Some t
                | _ \<Rightarrow> None)
          else None)"

text \<open>
  The object assigned to \<open>req.user\<close> (lines 49--57): \<open>permissions || []\<close> and
  \<open>status || 'active'\<close> fill in what the account lacks.
\<close>

definition principal_of :: "user \<Rightarrow> principal" where
  "principal_of u =
     \<lparr> p_id = u_id u, p_name = u_name u, p_email = u_email u, p_role = u_role u,
       p_department = u_department u,
       p_permissions = (case u_permissions u of None \<Rightarrow> Some [] | Some ps \<Rightarrow> Some ps),
       p_status = (if truthy_opt (u_status u) then the (u_status u) else ''active'') \<rparr>"

text \<open>
  \<open>jwt.verify\<close> is a parameter: \<open>None\<close> when it throws (bad signature, malformed or
  expired token), otherwise the \<open>id\<close> of the decoded payload, itself absent when the
  payload carries none.
\<close>

type_synonym verifier = "string \<Rightarrow> objectId option option"

definition authenticateToken :: "verifier \<Rightarrow> user list \<Rightarrow> request \<Rightarrow> request \<times> action" where
  "authenticateToken verify store req =
     (if \<not> truthy_opt (bearer_token req)
      then (req, Send 401 ''Not authorized to access this route'')
      else
        (case verify (the (bearer_token req)) of
           None \<Rightarrow> (req, Send 401 ''Not authorized to access this route'')
         | Some decoded_id \<Rightarrow>
             (case findById store decoded_id of
                Inl err \<Rightarrow> (req, Send 401 ''Not authorized to access this route'')
              | Inr None \<Rightarrow> (req, Send 401 ''User not found'')
              | Inr (Some found) \<Rightarrow>
                  (let usr = select_no_password found in
                   if truthy_opt (u_status usr) \<and> u_status usr \<noteq> Some ''active''
                   then (req, Send 401 ''Account is not active. Please contact administrator.'')
                   else
                     (req\<lparr>req_user := Some (principal_of usr)\<rparr>,
                      CallNext)))))"

subsection \<open>Authorization guards\<close>

text \<open>\<open>authorize(...roles)\<close>.\<close>

definition authorize :: "string list \<Rightarrow> request \<Rightarrow> action" where
  "authorize roles req =
     (case req_user req of
        None \<Rightarrow> Send 401 ''Not authorized to access this route''
      | Some usr \<Rightarrow>
          if \<not> arr_includes roles (p_role usr)
          then Send 403 (''User role '' @ p_role usr @ '' is not authorized to access this route'')
          else CallNext)"

text \<open>
  \<open>!req.user.permissions || !req.user.permissions.includes(permission)\<close>: an array,
  even an empty one, is truthy.
\<close>

definition lacks_permission :: "principal \<Rightarrow> string \<Rightarrow> bool" where
  "lacks_permission usr permission =
     (case p_permissions usr of
        None \<Rightarrow> True
      | Some ps \<Rightarrow> \<not> arr_includes ps permission)"

definition requirePermission :: "string \<Rightarrow> request \<Rightarrow> action" where
  "requirePermission permission req =
     (case req_user req of
        None \<Rightarrow> Send 401 ''Authentication required''
      | Some usr \<Rightarrow>
          if p_role usr = ''admin'' then CallNext
          else if lacks_permission usr permission then Send 403 ''Insufficient permissions''
          else CallNext)"

definition requireNewPermission :: "string \<Rightarrow> request \<Rightarrow> action" where
  "requireNewPermission permission req =
     (case req_user req of
        None \<Rightarrow> Send 401 ''Authentication required''
      | Some usr \<Rightarrow>
          if p_role usr = ''admin'' then CallNext
          else if lacks_permission usr permission
          then Send 403 ''Insufficient permissions for this operation''
          else CallNext)"

definition employeeRoles :: "string list" where
  "employeeRoles = [''admin'', ''manager'', ''staff'', ''support'']"

definition requireEmployee :: "request \<Rightarrow> action" where
  "requireEmployee req =
     (case req_user req of
        None \<Rightarrow> Send 401 ''Authentication required''
      | Some usr \<Rightarrow>
          if \<not> arr_includes employeeRoles (p_role usr)
          then Send 403 ''Employee access required''
          else CallNext)"

subsection \<open>Sample accounts and requests\<close>

definition sample_verify :: verifier where
  "sample_verify tok =
     (if tok = ''t-ada'' then Some (Some ''0123456789abcdef01234567'')
      else if tok = ''t-sam'' then Some (Some ''0123456789abcdef01234568'')
      else None)"

definition ada :: user where
  "ada = \<lparr> u_id = ''0123456789abcdef01234567'', u_name = ''Ada'',
           u_email = ''ada@example.org'', u_role = ''admin'',
           u_password = Some ''$2a$10$hashA'', u_phone = None,
           u_department = Some ''IT'', u_status = Some ''active'',
           u_permissions = Some [], u_isEmailVerified = True,
           u_mustChangePassword = False, u_createdBy = None, u_createdAt = 100,
           u_rest = [] \<rparr>"

definition sam :: user where
  "sam = \<lparr> u_id = ''0123456789abcdef01234568'', u_name = ''Sam'',
           u_email = ''sam@example.org'', u_role = ''staff'',
           u_password = Some ''$2a$10$hashS'', u_phone = None,
           u_department = Some ''Front desk'', u_status = Some ''suspended'',
           u_permissions = Some [], u_isEmailVerified = True,
           u_mustChangePassword = False, u_createdBy = None, u_createdAt = 100,
           u_rest = [] \<rparr>"

definition bearer :: "string \<Rightarrow> request" where
  "bearer tok = \<lparr> authorization = Some (''Bearer '' @ tok), req_user = None \<rparr>"

section \<open>Upload routes (routes/uploadRoutes.js)\<close>

text \<open>
  The file system is a map from paths to entries, and every call into \<open>fs\<close> is logged,
  so that a handler's result tells which calls it made.
\<close>

record fs_entry =
  fe_is_dir :: bool
  fe_size :: nat
  fe_birthtime :: int
  fe_mtime :: int

type_synonym filesystem = "string \<rightharpoonup> fs_entry"

datatype fs_call = ExistsSync string | UnlinkSync string | StatSync string

datatype upload_response =
    Fail nat string
  | Deleted
  | Info string nat int int string

text \<open>
  \<open>path.join(process.cwd(), 'uploads', filename)\<close> for a filename that has passed the
  check, so holds no separator and no \<open>..\<close>: the only segment \<open>join\<close> still
  normalises away is \<open>.\<close>.
\<close>

definition upload_path :: "string \<Rightarrow> string \<Rightarrow> string" where
  "upload_path cwd filename =
     (if filename = ''.'' then cwd @ ''/uploads'' else cwd @ ''/uploads/'' @ filename)"

text \<open>The check both handlers start with; the third pattern is a single backslash.\<close>

definition invalid_filename :: "string \<Rightarrow> bool" where
  "invalid_filename filename =
     (str_includes filename ''..'' \<or> str_includes filename ''/''
      \<or> str_includes filename [CHR 0x5C])"

text \<open>
  Handler of \<open>DELETE /api/upload/:filename\<close>. \<open>unlinkSync\<close> throws on a directory,
  which the handler's \<open>catch\<close> turns into a 500.
\<close>

definition delete_upload ::
  "string \<Rightarrow> filesystem \<Rightarrow> string \<Rightarrow> filesystem \<times> fs_call list \<times> upload_response" where
  "delete_upload cwd fs filename =
     (if invalid_filename filename then (fs, [], Fail 400 ''Invalid filename'')
      else
        (let filePath = upload_path cwd filename in
         case fs filePath of
           None \<Rightarrow> (fs, [ExistsSync filePath], Fail 404 ''File not found'')
         | Some e \<Rightarrow>
             if fe_is_dir e
             then (fs, [ExistsSync filePath, UnlinkSync filePath], Fail 500 ''Error deleting image'')
             else (fs(filePath := None), [ExistsSync filePath, UnlinkSync filePath], Deleted)))"

text \<open>Handler of \<open>GET /api/upload/:filename\<close>.\<close>

definition upload_info ::
  "string \<Rightarrow> filesystem \<Rightarrow> string \<Rightarrow> filesystem \<times> fs_call list \<times> upload_response" where
  "upload_info cwd fs filename =
     (if invalid_filename filename then (fs, [], Fail 400 ''Invalid filename'')
      else
        (let filePath = upload_path cwd filename in
         case fs filePath of
           None \<Rightarrow> (fs, [ExistsSync filePath], Fail 404 ''File not found'')
         | Some e \<Rightarrow>
             (fs, [ExistsSync filePath, StatSync filePath],
              Info filename (fe_size e) (fe_birthtime e) (fe_mtime e) (''/uploads/'' @ filename))))"

text \<open>
  A route behind \<open>authorize('admin')\<close>: the handler runs only when the guard calls
  \<open>next()\<close>.
\<close>

definition admin_upload_route ::
  "(string \<Rightarrow> filesystem \<Rightarrow> string \<Rightarrow> filesystem \<times> fs_call list \<times> upload_response)
   \<Rightarrow> request \<Rightarrow> string \<Rightarrow> filesystem \<Rightarrow> string
   \<Rightarrow> filesystem \<times> fs_call list \<times> upload_response" where
  "admin_upload_route handler req cwd fs filename =
     (case authorize [''admin''] req of
        Send n m \<Rightarrow> (fs, [], Fail n m)
      | CallNext \<Rightarrow> handler cwd fs filename)"

section \<open>Employee routes: deletion (routes/employeeRoutes.js)\<close>

text \<open>
  A response of the employee routes: the HTTP status and the JSON body. \<open>Message\<close> is
  \<open>{success, message}\<close>; \<open>Failure\<close> is the body of a 500, which adds \<open>error.message\<close>;
  \<open>Employees\<close> carries \<open>data\<close>, \<open>totalCount\<close>, \<open>currentPage\<close> and \<open>totalPages\<close>
  (a number that is not finite is serialised as \<open>null\<close>, here \<open>None\<close>);
  \<open>Employee\<close> carries \<open>data\<close> and the optional message.
\<close>

datatype emp_body =
    Message string
  | Failure string string
  | Employees "user list" nat int "int option"
  | Employee user "string option"

type_synonym emp_response = "nat \<times> emp_body"

text \<open>The message of the error \<open>findById\<close> throws, shortened.\<close>

definition cast_error_message :: "string \<Rightarrow> string" where
  "cast_error_message i = ''Cast to ObjectId failed for value '' @ i"

text \<open>\<open>User.countDocuments({ role: 'admin' })\<close>.\<close>

definition count_admins :: "user list \<Rightarrow> nat" where
  "count_admins store = length (filter (\<lambda>u. u_role u = ''admin'') store)"

text \<open>\<open>User.findByIdAndDelete(id)\<close> removes the first document with that identifier.\<close>

fun findByIdAndDelete :: "user list \<Rightarrow> objectId \<Rightarrow> user list" where
  "findByIdAndDelete [] i = []"
| "findByIdAndDelete (u # us) i =
     (if same_id (u_id u) i then us else u # findByIdAndDelete us i)"

text \<open>
  Handler of \<open>DELETE /api/employees/:id\<close>. \<open>env_code\<close> is
  \<open>process.env.MASTER_SECURITY_CODE\<close> and \<open>masterCode\<close> the field of the request
  body, each absent or a string; \<open>!==\<close> on them is inequality.
\<close>

definition deleteEmployee ::
  "string option \<Rightarrow> user list \<Rightarrow> principal \<Rightarrow> string option \<Rightarrow> string
   \<Rightarrow> user list \<times> emp_response" where
  "deleteEmployee env_code store caller masterCode employeeId =
     (if masterCode \<noteq> env_code
      then (store, (403, Message ''Invalid master security code. Access denied.''))
      else
        (case findById store (Some employeeId) of
           Inl err \<Rightarrow>
             (store, (500, Failure ''Failed to delete employee'' (cast_error_message employeeId)))
         | Inr None \<Rightarrow> (store, (404, Message ''Employee not found''))
         | Inr (Some employee) \<Rightarrow>
             if \<not> arr_includes employeeRoles (u_role employee)
             then (store, (404, Message ''Employee not found''))
             else if u_role employee = ''admin'' \<and> count_admins store \<le> 1
             then (store, (400, Message ''Cannot delete the last admin user''))
             else if same_id (u_id employee) (p_id caller)
             then (store, (400, Message ''Cannot delete your own account''))
             else (findByIdAndDelete store employeeId,
                   (200, Message ''Employee deleted successfully''))))"

text \<open>
  The route: \<open>requireNewPermission('delete_users')\<close>, then the handler. The guard calls
  \<open>next()\<close> only with a principal attached; without one the handler's \<open>req.user.id\<close>
  would throw into its \<open>catch\<close>.
\<close>

definition deleteEmployeeRoute ::
  "string option \<Rightarrow> user list \<Rightarrow> request \<Rightarrow> string option \<Rightarrow> string
   \<Rightarrow> user list \<times> emp_response" where
  "deleteEmployeeRoute env_code store req masterCode employeeId =
     (case requireNewPermission ''delete_users'' req of
        Send n m \<Rightarrow> (store, (n, Message m))
      | CallNext \<Rightarrow>
          (case req_user req of
             None \<Rightarrow> (store, (500, Failure ''Failed to delete employee''
                                 ''Cannot read properties of undefined''))
           | Some caller \<Rightarrow> deleteEmployee env_code store caller masterCode employeeId))"

text \<open>
  The values the \<open>permissions\<close> path of \<open>UserSchema\<close> admits (models/User.js,
  lines 49--58), and the accounts whose permission array, if any, holds only such values:
  those are the accounts validation lets \<open>save()\<close> store.
\<close>

definition permission_enum :: "string list" where
  "permission_enum =
     [''manage_users'', ''manage_events'', ''manage_practitioners'', ''view_analytics'',
      ''system_settings'']"

definition schema_permissions :: "user \<Rightarrow> bool" where
  "schema_permissions u =
     (case u_permissions u of
        None \<Rightarrow> True
      | Some ps \<Rightarrow> list_all (\<lambda>p. arr_includes permission_enum p) ps)"

subsection \<open>More sample accounts\<close>

definition bob :: user where
  "bob = \<lparr> u_id = ''0123456789abcdef0123456a'', u_name = ''Bob'',
           u_email = ''bob@example.org'', u_role = ''admin'',
           u_password = Some ''$2a$10$hashB'', u_phone = None,
           u_department = Some ''IT'', u_status = Some ''active'',
           u_permissions = Some [], u_isEmailVerified = True,
           u_mustChangePassword = False, u_createdBy = None, u_createdAt = 100,
           u_rest = [] \<rparr>"

definition as_caller :: "user \<Rightarrow> request" where
  "as_caller u = \<lparr> authorization = None, req_user = Some (principal_of u) \<rparr>"

section \<open>Documents, filters and queries\<close>

text \<open>
  Practitioners and events are handled as documents: lists of path/value pairs, a path
  the document lacks being \<open>undefined\<close>. Numbers are integers and dates are
  milliseconds since the epoch.
\<close>

datatype jsvalue =
    JStr string
  | JNum int
  | JBool bool
  | JDate int
  | JArr "string list"
  | JId objectId
  | JNull

type_synonym doc = "(string \<times> jsvalue) list"

definition get_path :: "doc \<Rightarrow> string \<Rightarrow> jsvalue option" where
  "get_path d k = map_of d k"

text \<open>Assignment \<open>obj[k] = v\<close>: an existing key keeps its place.\<close>

fun set_path :: "string \<Rightarrow> 'v \<Rightarrow> (string \<times> 'v) list \<Rightarrow> (string \<times> 'v) list" where
  "set_path k v [] = [(k, v)]"
| "set_path k v ((k', v') # d) = (if k' = k then (k, v) # d else (k', v') # set_path k v d)"

subsection \<open>parseInt and pagination arithmetic\<close>

definition is_space :: "char \<Rightarrow> bool" where
  "is_space c = (c \<in> set [CHR 0x09, CHR 0x0A, CHR 0x0B, CHR 0x0C, CHR 0x0D, CHR '' ''])"

definition is_digit :: "char \<Rightarrow> bool" where
  "is_digit c = (c \<in> set ''0123456789'')"

definition digit_val :: "char \<Rightarrow> nat" where
  "digit_val c = of_char c - 48"

definition digits_val :: "string \<Rightarrow> nat" where
  "digits_val ds = foldl (\<lambda>a c. 10 * a + digit_val c) 0 ds"

text \<open>
  \<open>parseInt(s, 10)\<close> on a string: leading white space, an optional sign, then the
  longest run of decimal digits; \<open>NaN\<close>, here \<open>None\<close>, when there is no digit.
\<close>

definition parseInt_str :: "string \<Rightarrow> int option" where
  "parseInt_str s =
     (let t = dropWhile is_space s;
          neg = (case t of c # _ \<Rightarrow> c = CHR ''-'' | [] \<Rightarrow> False);
          r = (case t of c # cs \<Rightarrow> if c = CHR ''-'' \<or> c = CHR ''+'' then cs else t | [] \<Rightarrow> t);
          ds = takeWhile is_digit r
      in if ds = [] then None
         else Some (if neg then - int (digits_val ds) else int (digits_val ds)))"

text \<open>
  \<open>parseInt(s)\<close> with no radix: as above, except that after the sign a prefix
  \<open>0x\<close> or \<open>0X\<close> makes the digits hexadecimal.
\<close>

definition hex_val :: "char \<Rightarrow> nat" where
  "hex_val c = (if is_digit c then of_char c - 48
                else if c \<in> set ''abcdef'' then of_char c - 87
                else of_char c - 55)"

definition parseInt_auto :: "string \<Rightarrow> int option" where
  "parseInt_auto s =
     (let t = dropWhile is_space s;
          neg = (case t of c # _ \<Rightarrow> c = CHR ''-'' | [] \<Rightarrow> False);
          r = (case t of c # cs \<Rightarrow> if c = CHR ''-'' \<or> c = CHR ''+'' then cs else t | [] \<Rightarrow> t)
      in if startsWith r ''0x'' \<or> startsWith r ''0X''
         then (let ds = takeWhile hex_digit (drop 2 r);
                   n = foldl (\<lambda>a c. 16 * a + hex_val c) 0 ds
               in if ds = [] then None else Some (if neg then - int n else int n))
         else parseInt_str s)"

text \<open>\<open>parseInt\<close> of a query parameter: \<open>undefined\<close> gives \<open>NaN\<close>.\<close>

definition parseInt :: "string option \<Rightarrow> int option" where
  "parseInt v = (case v of None \<Rightarrow> None | Some s \<Rightarrow> parseInt_str s)"

text \<open>\<open>parseInt(v, 10) || dflt\<close>: \<open>NaN\<close> and \<open>0\<close> are falsy.\<close>

definition parseInt_or :: "string option \<Rightarrow> int \<Rightarrow> int" where
  "parseInt_or v dflt =
     (case parseInt v of None \<Rightarrow> dflt | Some n \<Rightarrow> if n = 0 then dflt else n)"

text \<open>\<open>Math.ceil(a / b)\<close> for integers \<open>a\<close> and \<open>b \<noteq> 0\<close>.\<close>

definition ceil_div :: "int \<Rightarrow> int \<Rightarrow> int" where
  "ceil_div a b = - ((- a) div b)"

subsection \<open>Regular expressions\<close>

text \<open>
  \<open>{ $regex: pattern, $options: 'i' }\<close>. A pattern of ASCII letters, digits and spaces
  only has no metacharacter: it matches a string exactly when it occurs in it, ASCII
  letters compared without case. For any other pattern the regular-expression engine is a
  parameter: it gives the matcher, or nothing when the pattern does not compile.
\<close>

type_synonym regex_engine = "string \<Rightarrow> (string \<Rightarrow> bool) option"

definition plain_char :: "char \<Rightarrow> bool" where
  "plain_char c = (is_upper c \<or> is_lower c \<or> is_digit c \<or> c = CHR '' '')"

definition ci_includes :: "string \<Rightarrow> string \<Rightarrow> bool" where
  "ci_includes s pat = str_includes (lower s) (lower pat)"

definition regex_i :: "regex_engine \<Rightarrow> string \<Rightarrow> (string \<Rightarrow> bool) option" where
  "regex_i rx pat = (if list_all plain_char pat then Some (\<lambda>s. ci_includes s pat) else rx pat)"

subsection \<open>Filters\<close>

text \<open>
  A filter object: each key is a path with its operators (a bare value is \<open>Eq\<close>), or
  \<open>$or\<close> with a list of one-path alternatives. Assigning a key again replaces it.
\<close>

datatype oper =
    Eq jsvalue
  | In "string list"
  | Regex string
  | Gte jsvalue
  | Lte jsvalue

datatype clause = Path "oper list" | Or "(string \<times> oper) list"

type_synonym filter = "(string \<times> clause) list"

fun js_le :: "jsvalue \<Rightarrow> jsvalue \<Rightarrow> bool" where
  "js_le (JNum a) (JNum b) = (a \<le> b)"
| "js_le (JDate a) (JDate b) = (a \<le> b)"
| "js_le _ _ = False"

text \<open>
  One operator against the value at a path. An array path matches when one of its
  elements does. The flag says whether the operator could be evaluated: a pattern that
  does not compile makes the whole query fail.
\<close>

fun oper_ok :: "regex_engine \<Rightarrow> oper \<Rightarrow> bool" where
  "oper_ok rx (Regex pat) = (regex_i rx pat \<noteq> None)"
| "oper_ok rx _ = True"

fun oper_matches :: "regex_engine \<Rightarrow> oper \<Rightarrow> jsvalue option \<Rightarrow> bool" where
  "oper_matches rx (Eq x) v =
     (v = Some x \<or> (case (x, v) of (JStr s, Some (JArr ys)) \<Rightarrow> s \<in> set ys | _ \<Rightarrow> False))"
| "oper_matches rx (In xs) v =
     (case v of
        Some (JStr s) \<Rightarrow> s \<in> set xs
      | Some (JArr ys) \<Rightarrow> list_ex (\<lambda>y. y \<in> set xs) ys
      | _ \<Rightarrow> False)"
| "oper_matches rx (Regex pat) v =
     (case regex_i rx pat of
        None \<Rightarrow> False
      | Some m \<Rightarrow>
          (case v of
             Some (JStr s) \<Rightarrow> m s
           | Some (JArr ys) \<Rightarrow> list_ex m ys
           | _ \<Rightarrow> False))"
| "oper_matches rx (Gte x) v = (case v of Some y \<Rightarrow> js_le x y | None \<Rightarrow> False)"
| "oper_matches rx (Lte x) v = (case v of Some y \<Rightarrow> js_le y x | None \<Rightarrow> False)"

fun clause_ok :: "regex_engine \<Rightarrow> clause \<Rightarrow> bool" where
  "clause_ok rx (Path ops) = list_all (oper_ok rx) ops"
| "clause_ok rx (Or alts) = list_all (\<lambda>(k, opr). oper_ok rx opr) alts"

fun clause_matches :: "regex_engine \<Rightarrow> doc \<Rightarrow> string \<times> clause \<Rightarrow> bool" where
  "clause_matches rx d (k, Path ops) = list_all (\<lambda>opr. oper_matches rx opr (get_path d k)) ops"
| "clause_matches rx d (k, Or alts) =
     list_ex (\<lambda>(k', opr). oper_matches rx opr (get_path d k')) alts"

definition filter_ok :: "regex_engine \<Rightarrow> filter \<Rightarrow> bool" where
  "filter_ok rx f = list_all (\<lambda>(k, c). clause_ok rx c) f"

definition matches :: "regex_engine \<Rightarrow> filter \<Rightarrow> doc \<Rightarrow> bool" where
  "matches rx f d = list_all (clause_matches rx d) f"

subsection \<open>Sorting and windows\<close>

fun str_lt :: "string \<Rightarrow> string \<Rightarrow> bool" where
  "str_lt [] [] = False"
| "str_lt [] (y # ys) = True"
| "str_lt (x # xs) [] = False"
| "str_lt (x # xs) (y # ys) =
     ((of_char x :: nat) < of_char y \<or> (x = y \<and> str_lt xs ys))"

text \<open>The order of values of different types in a sort; a missing path sorts as \<open>null\<close>.\<close>

fun type_rank :: "jsvalue option \<Rightarrow> nat" where
  "type_rank None = 0"
| "type_rank (Some JNull) = 0"
| "type_rank (Some (JNum n)) = 1"
| "type_rank (Some (JStr s)) = 2"
| "type_rank (Some (JArr xs)) = 3"
| "type_rank (Some (JId i)) = 4"
| "type_rank (Some (JBool b)) = 5"
| "type_rank (Some (JDate t)) = 6"

fun js_lt :: "jsvalue option \<Rightarrow> jsvalue option \<Rightarrow> bool" where
  "js_lt (Some (JNum a)) (Some (JNum b)) = (a < b)"
| "js_lt (Some (JStr a)) (Some (JStr b)) = str_lt a b"
| "js_lt (Some (JId a)) (Some (JId b)) = str_lt a b"
| "js_lt (Some (JBool a)) (Some (JBool b)) = (\<not> a \<and> b)"
| "js_lt (Some (JDate a)) (Some (JDate b)) = (a < b)"
| "js_lt x y = (type_rank x < type_rank y)"

text \<open>
  A sort specification \<open>{k1: 1, k2: -1, ...}\<close> as a list of paths, each with the flag
  ``ascending''.
\<close>

fun doc_le :: "(string \<times> bool) list \<Rightarrow> doc \<Rightarrow> doc \<Rightarrow> bool" where
  "doc_le [] a b = True"
| "doc_le ((k, asc) # ks) a b =
     (if js_lt (get_path a k) (get_path b k) then asc
      else if js_lt (get_path b k) (get_path a k) then \<not> asc
      else doc_le ks a b)"

fun insort_by :: "('a \<Rightarrow> 'a \<Rightarrow> bool) \<Rightarrow> 'a \<Rightarrow> 'a list \<Rightarrow> 'a list" where
  "insort_by le x [] = [x]"
| "insort_by le x (y # ys) = (if le x y then x # y # ys else y # insort_by le x ys)"

definition sort_by :: "('a \<Rightarrow> 'a \<Rightarrow> bool) \<Rightarrow> 'a list \<Rightarrow> 'a list" where
  "sort_by le xs = foldr (insort_by le) xs []"

text \<open>\<open>.limit(lmt)\<close>: zero is no limit, a negative limit counts as its absolute value.\<close>

definition take_limit :: "int \<Rightarrow> 'a list \<Rightarrow> 'a list" where
  "take_limit lmt xs = (if lmt = 0 then xs else take (nat \<bar>lmt\<bar>) xs)"

text \<open>
  \<open>Model.find(filter).sort(spec).skip(skip).limit(lmt)\<close> on a collection. The store
  refuses a pattern that does not compile and a negative skip; the handler's \<open>catch\<close>
  sees that as an exception.
\<close>

definition find_docs ::
  "regex_engine \<Rightarrow> doc list \<Rightarrow> filter \<Rightarrow> (string \<times> bool) list \<Rightarrow> int \<Rightarrow> int
   \<Rightarrow> string + doc list" where
  "find_docs rx coll f spec skip lmt =
     (if \<not> filter_ok rx f then Inl ''Regular expression is invalid''
      else if skip < 0 then Inl ''Skip value must be non-negative''
      else Inr (take_limit lmt (drop (nat skip) (sort_by (doc_le spec) (filter (matches rx f) coll)))))"

text \<open>\<open>Model.countDocuments(filter)\<close>.\<close>

definition countDocuments :: "regex_engine \<Rightarrow> doc list \<Rightarrow> filter \<Rightarrow> nat" where
  "countDocuments rx coll f = length (filter (matches rx f) coll)"

text \<open>\<open>.select('a b c')\<close>: the named paths and \<open>_id\<close>.\<close>

definition select_paths :: "string list \<Rightarrow> doc \<Rightarrow> doc" where
  "select_paths ks d = filter (\<lambda>(k, v). k \<in> set ks \<or> k = ''_id'') d"

text \<open>\<open>s.trim()\<close>.\<close>

definition js_trim :: "string \<Rightarrow> string" where
  "js_trim s = rev (dropWhile is_space (rev (dropWhile is_space s)))"

text \<open>The strings found at a path: the string itself, or the elements of an array.\<close>

definition strings_at :: "doc \<Rightarrow> string \<Rightarrow> string list" where
  "strings_at d k =
     (case get_path d k of
        Some (JStr s) \<Rightarrow> [s]
      | Some (JArr ys) \<Rightarrow> ys
      | _ \<Rightarrow> [])"

section \<open>Listing endpoints\<close>

text \<open>
  A listing response: a server error; a page with \<open>data\<close> and
  \<open>pagination: {total, page, pages}\<close>; or, from the endpoints that do not paginate,
  \<open>data\<close> alone. \<open>count\<close> is always the length of \<open>data\<close>.
\<close>

datatype list_response =
    ServerError nat string
  | Paged "doc list" nat int int
  | Unpaged "doc list"

fun resp_data :: "list_response \<Rightarrow> doc list" where
  "resp_data (ServerError n m) = []"
| "resp_data (Paged ds totalCount page pages) = ds"
| "resp_data (Unpaged ds) = ds"

text \<open>
  Lines ``Pagination'' of the paginating handlers: \<open>page\<close>, \<open>limit\<close> and
  \<open>startIndex\<close>.
\<close>

definition pagination_window :: "string option \<Rightarrow> string option \<Rightarrow> int \<Rightarrow> int \<times> int \<times> int" where
  "pagination_window page_param limit_param default_limit =
     (let page = parseInt_or page_param 1;
          limit = parseInt_or limit_param default_limit;
          startIndex = (page - 1) * limit
      in (page, limit, startIndex))"

text \<open>The \<open>$or\<close> of three case-insensitive patterns that every search builds.\<close>

definition search_clause :: "string \<Rightarrow> string \<Rightarrow> string \<Rightarrow> string \<Rightarrow> clause" where
  "search_clause a b c s = Or [(a, Regex s), (b, Regex s), (c, Regex s)]"

text \<open>
  A query-string parameter that may be repeated: given once it is a string, given several
  times an array.
\<close>

datatype qparam = Single string | Many "string list"

fun truthy_qparam :: "qparam option \<Rightarrow> bool" where
  "truthy_qparam None = False"
| "truthy_qparam (Some (Single s)) = truthy_str s"
| "truthy_qparam (Some (Many xs)) = True"

text \<open>\<open>Array.isArray(v) ? { $in: v } : v\<close> for a truthy parameter.\<close>

fun in_or_eq :: "qparam option \<Rightarrow> clause" where
  "in_or_eq (Some (Many xs)) = Path [In xs]"
| "in_or_eq (Some (Single s)) = Path [Eq (JStr s)]"
| "in_or_eq None = Path []"

text \<open>\<open>Model.countDocuments(filter)\<close>, which fails on a filter the store cannot evaluate.\<close>

definition count_matching :: "regex_engine \<Rightarrow> doc list \<Rightarrow> filter \<Rightarrow> string + nat" where
  "count_matching rx coll f =
     (if \<not> filter_ok rx f then Inl ''Regular expression is invalid''
      else Inr (countDocuments rx coll f))"

subsection \<open>GET /api/practitioners (routes/practitionerRoutes.js)\<close>

text \<open>The query string, each parameter given at most once.\<close>

record practitioner_query =
  pq_search :: "string option"
  pq_specialty :: "string option"
  pq_location :: "string option"
  pq_status :: "string option"
  pq_isFeatured :: "string option"
  pq_page :: "string option"
  pq_limit :: "string option"

definition practitioners_filter :: "practitioner_query \<Rightarrow> filter" where
  "practitioners_filter q =
     (let query0 = (if truthy_opt (pq_search q)
                    then [(''$or'', search_clause ''name'' ''specialty'' ''bio'' (the (pq_search q)))]
                    else []);
          query1 = (if truthy_opt (pq_specialty q)
                    then set_path ''specialty'' (Path [Eq (JStr (the (pq_specialty q)))]) query0
                    else query0);
          query2 = (if truthy_opt (pq_location q)
                    then set_path ''locations'' (Path [Eq (JStr (the (pq_location q)))]) query1
                    else query1);
          query3 = (if truthy_opt (pq_status q)
                    then set_path ''status'' (Path [Eq (JStr (the (pq_status q)))]) query2
                    else query2)
      in (if pq_isFeatured q \<noteq> None
          then set_path ''isFeatured'' (Path [Eq (JBool (pq_isFeatured q = Some ''true''))]) query3
          else query3))"

definition list_practitioners ::
  "regex_engine \<Rightarrow> doc list \<Rightarrow> practitioner_query \<Rightarrow> list_response" where
  "list_practitioners rx coll q =
     (let query = practitioners_filter q;
          (page, limit, startIndex) = pagination_window (pq_page q) (pq_limit q) 10
      in case find_docs rx coll query [(''isFeatured'', False), (''createdAt'', False)]
                startIndex limit of
           Inl err \<Rightarrow> ServerError 500 ''Server error while fetching practitioners''
         | Inr practitioners \<Rightarrow>
             (case count_matching rx coll query of
                Inl err \<Rightarrow> ServerError 500 ''Server error while fetching practitioners''
              | Inr totalCount \<Rightarrow>
                  Paged practitioners totalCount page (ceil_div (int totalCount) limit)))"

subsection \<open>GET /api/public/practitioners (routes/publicPractitionerRoutes.js)\<close>

record public_practitioner_query =
  ppq_search :: "string option"
  ppq_specialty :: "qparam option"
  ppq_location :: "qparam option"
  ppq_insurance :: "qparam option"
  ppq_paymentOption :: "qparam option"
  ppq_sessionType :: "qparam option"
  ppq_maxFee :: "string option"
  ppq_page :: "string option"
  ppq_limit :: "string option"

text \<open>
  The filter of the paginating version. \<open>parseInt(maxFee)\<close> that is \<open>NaN\<close> cannot be
  cast to the number the path holds, which fails the query: the filter is then \<open>None\<close>.
\<close>

definition public_practitioners_filter :: "public_practitioner_query \<Rightarrow> filter option" where
  "public_practitioners_filter q =
     (let query0 = [(''status'', Path [Eq (JStr ''active'')])];
          query1 = (if truthy_opt (ppq_search q)
                    then set_path ''$or''
                           (search_clause ''name'' ''specialty'' ''bio'' (the (ppq_search q))) query0
                    else query0);
          query2 = (if truthy_qparam (ppq_specialty q)
                    then set_path ''specialty'' (in_or_eq (ppq_specialty q)) query1 else query1);
          query3 = (if truthy_qparam (ppq_location q)
                    then set_path ''locations'' (in_or_eq (ppq_location q)) query2 else query2);
          query4 = (if truthy_qparam (ppq_insurance q)
                    then set_path ''insurances'' (in_or_eq (ppq_insurance q)) query3 else query3);
          query5 = (if truthy_qparam (ppq_paymentOption q)
                    then set_path ''paymentOptions'' (in_or_eq (ppq_paymentOption q)) query4
                    else query4);
          query6 = (if truthy_qparam (ppq_sessionType q)
                    then set_path ''sessionTypes'' (in_or_eq (ppq_sessionType q)) query5
                    else query5)
      in (if truthy_opt (ppq_maxFee q)
          then (case parseInt_auto (the (ppq_maxFee q)) of
                  None \<Rightarrow> None
                | Some n \<Rightarrow> Some (set_path ''fees.followUp'' (Path [Lte (JNum n)]) query6))
          else Some query6))"

definition list_public_practitioners ::
  "regex_engine \<Rightarrow> doc list \<Rightarrow> public_practitioner_query \<Rightarrow> list_response" where
  "list_public_practitioners rx coll q =
     (case public_practitioners_filter q of
        None \<Rightarrow> ServerError 500 ''Server error''
      | Some query \<Rightarrow>
          (let (page, limit, startIndex) = pagination_window (ppq_page q) (ppq_limit q) 12
           in case find_docs rx coll query [(''isFeatured'', False), (''rating'', False)]
                     startIndex limit of
                Inl err \<Rightarrow> ServerError 500 ''Server error''
              | Inr practitioners \<Rightarrow>
                  (case count_matching rx coll query of
                     Inl err \<Rightarrow> ServerError 500 ''Server error''
                   | Inr total_n \<Rightarrow>
                       Paged practitioners total_n page (ceil_div (int total_n) limit))))"

text \<open>The version ``optimized for free tier'': search only, no pagination, at most 100.\<close>

definition public_practitioners_filter_opt :: "string option \<Rightarrow> filter" where
  "public_practitioners_filter_opt search_param =
     (let query0 = [(''status'', Path [Eq (JStr ''active'')])]
      in (if truthy_opt search_param \<and> truthy_str (js_trim (the search_param))
          then set_path ''$or''
                 (search_clause ''name'' ''specialty'' ''bio'' (js_trim (the search_param))) query0
          else query0))"

definition practitioner_paths :: "string list" where
  "practitioner_paths =
     [''name'', ''title'', ''specialty'', ''experience'', ''bio'', ''locations'', ''email'',
      ''phone'', ''fees'', ''fees.initial'', ''fees.followUp'', ''insurances'',
      ''paymentOptions'', ''sessionTypes'', ''isFeatured'', ''imageUrl'', ''status'']"

definition list_public_practitioners_opt ::
  "regex_engine \<Rightarrow> doc list \<Rightarrow> string option \<Rightarrow> list_response" where
  "list_public_practitioners_opt rx coll search_param =
     (case find_docs rx coll (public_practitioners_filter_opt search_param)
             [(''isFeatured'', False), (''name'', True)] 0 100 of
        Inl err \<Rightarrow> ServerError 500 ''Failed to fetch practitioners''
      | Inr practitioners \<Rightarrow> Unpaged (map (select_paths practitioner_paths) practitioners))"

subsection \<open>GET /api/public/events (routes/publicEventRoutes.js)\<close>

record event_query =
  eq_search :: "string option"
  eq_type :: "string option"
  eq_dateRange :: "string option"
  eq_page :: "string option"
  eq_limit :: "string option"

text \<open>
  The dates the handler takes from the clock: \<open>new Date()\<close> of the default filter,
  \<open>today\<close> of the date-range block, and the ends of the windows computed from it.
\<close>

record clock =
  now :: int
  today :: int
  nextWeek :: int
  thisMonthEnd :: int
  nextMonthStart :: int
  nextMonthEnd :: int

definition public_events_filter :: "clock \<Rightarrow> event_query \<Rightarrow> filter" where
  "public_events_filter clk q =
     (let query0 = [(''status'', Path [In [''upcoming'', ''ongoing'']]),
                    (''date'', Path [Gte (JDate (now clk))])];
          query1 = (if truthy_opt (eq_search q)
                    then set_path ''$or''
                           (search_clause ''title'' ''description'' ''location'' (the (eq_search q)))
                           query0
                    else query0);
          query2 = (if truthy_opt (eq_type q) \<and> eq_type q \<noteq> Some ''all''
                    then set_path ''type'' (Path [Eq (JStr (the (eq_type q)))]) query1
                    else query1)
      in (if truthy_opt (eq_dateRange q)
          then (if eq_dateRange q = Some ''next7days''
                then set_path ''date''
                       (Path [Gte (JDate (today clk)), Lte (JDate (nextWeek clk))]) query2
                else if eq_dateRange q = Some ''thisMonth''
                then set_path ''date''
                       (Path [Gte (JDate (today clk)), Lte (JDate (thisMonthEnd clk))]) query2
                else if eq_dateRange q = Some ''nextMonth''
                then set_path ''date''
                       (Path [Gte (JDate (nextMonthStart clk)), Lte (JDate (nextMonthEnd clk))])
                       query2
                else query2)
          else query2))"

definition list_public_events ::
  "regex_engine \<Rightarrow> clock \<Rightarrow> doc list \<Rightarrow> event_query \<Rightarrow> list_response" where
  "list_public_events rx clk coll q =
     (let query = public_events_filter clk q;
          (page, limit, startIndex) = pagination_window (eq_page q) (eq_limit q) 6
      in case find_docs rx coll query [(''isFeatured'', False), (''date'', True)]
                startIndex limit of
           Inl err \<Rightarrow> ServerError 500 ''Server error''
         | Inr events \<Rightarrow>
             (case count_matching rx coll query of
                Inl err \<Rightarrow> ServerError 500 ''Server error''
              | Inr total_n \<Rightarrow> Paged events total_n page (ceil_div (int total_n) limit)))"

text \<open>
  The version ``optimized for free tier'': the date condition is removed, the search term
  is trimmed, and at most 50 events come back, unpaginated.
\<close>

definition public_events_filter_opt :: "string option \<Rightarrow> filter" where
  "public_events_filter_opt search_param =
     (let query0 = [(''status'', Path [In [''upcoming'', ''ongoing'']])]
      in (if truthy_opt search_param \<and> truthy_str (js_trim (the search_param))
          then set_path ''$or''
                 (search_clause ''title'' ''description'' ''location'' (js_trim (the search_param)))
                 query0
          else query0))"

definition event_paths :: "string list" where
  "event_paths =
     [''title'', ''description'', ''date'', ''time'', ''location'', ''type'', ''status'',
      ''isFeatured'', ''imageUrl'', ''registrationUrl'']"

definition list_public_events_opt ::
  "regex_engine \<Rightarrow> doc list \<Rightarrow> string option \<Rightarrow> list_response" where
  "list_public_events_opt rx coll search_param =
     (case find_docs rx coll (public_events_filter_opt search_param)
             [(''isFeatured'', False), (''date'', True)] 0 50 of
        Inl err \<Rightarrow> ServerError 500 ''Failed to fetch events''
      | Inr events \<Rightarrow> Unpaged (map (select_paths event_paths) events))"

subsection \<open>Sample documents and queries\<close>

definition no_regex_engine :: regex_engine where
  "no_regex_engine p = None"

definition yoga_teacher :: doc where
  "yoga_teacher =
     [(''_id'', JId ''0123456789abcdef01234570''), (''name'', JStr ''Mira Patel''),
      (''specialty'', JStr ''Hatha Yoga''), (''bio'', JStr ''Teaches breathing''),
      (''status'', JStr ''active''), (''isFeatured'', JBool False)]"

definition dietitian :: doc where
  "dietitian =
     [(''_id'', JId ''0123456789abcdef01234571''), (''name'', JStr ''Tom Lee''),
      (''specialty'', JStr ''Nutrition''), (''bio'', JStr ''Meal plans''),
      (''status'', JStr ''active''), (''isFeatured'', JBool True)]"

definition yoga_query :: practitioner_query where
  "yoga_query =
     \<lparr> pq_search = Some ''yoga'', pq_specialty = None, pq_location = None, pq_status = None,
       pq_isFeatured = None, pq_page = None, pq_limit = None \<rparr>"

definition page2_query :: practitioner_query where
  "page2_query =
     \<lparr> pq_search = None, pq_specialty = None, pq_location = None, pq_status = None,
       pq_isFeatured = None, pq_page = Some ''2'', pq_limit = Some ''10'' \<rparr>"

definition page2_event_query :: event_query where
  "page2_event_query =
     \<lparr> eq_search = None, eq_type = None, eq_dateRange = None,
       eq_page = Some ''2'', eq_limit = Some ''10'' \<rparr>"

definition plain_event_query :: event_query where
  "plain_event_query =
     \<lparr> eq_search = None, eq_type = None, eq_dateRange = None,
       eq_page = None, eq_limit = None \<rparr>"

text \<open>A request at time 1000; one event lies before it, one after.\<close>

definition sample_clock :: clock where
  "sample_clock =
     \<lparr> now = 1000, today = 1000, nextWeek = 1700, thisMonthEnd = 2000,
       nextMonthStart = 2001, nextMonthEnd = 5000 \<rparr>"

definition past_event :: doc where
  "past_event =
     [(''title'', JStr ''Spring workshop''), (''date'', JDate 400),
      (''status'', JStr ''upcoming''), (''isFeatured'', JBool False)]"

definition future_event :: doc where
  "future_event =
     [(''title'', JStr ''Autumn seminar''), (''date'', JDate 1500),
      (''status'', JStr ''upcoming''), (''isFeatured'', JBool False)]"

section \<open>Event update (models/Event.js, routes/eventRoutes.js)\<close>

text \<open>
  The paths \<open>eventSchema\<close> declares, with \<open>_id\<close> and the two timestamps that
  \<open>timestamps: true\<close> adds. The schema is strict, which is the default: an update
  through the model keeps only these paths and silently drops any other key.
\<close>

definition event_schema_paths :: "string list" where
  "event_schema_paths =
     [''_id'', ''title'', ''description'', ''date'', ''time'', ''location'', ''type'',
      ''status'', ''isFeatured'', ''registeredAttendees'', ''imageUrl'', ''registrationUrl'',
      ''organizer'', ''createdAt'', ''updatedAt'']"

definition strict_paths :: "string list \<Rightarrow> doc \<Rightarrow> doc" where
  "strict_paths paths upd = filter (\<lambda>(k, v). k \<in> set paths) upd"

text \<open>JavaScript truthiness of a value of the request body.\<close>

fun truthy :: "jsvalue \<Rightarrow> bool" where
  "truthy (JStr s) = (s \<noteq> [])"
| "truthy (JNum n) = (n \<noteq> 0)"
| "truthy (JBool b) = b"
| "truthy JNull = False"
| "truthy _ = True"

text \<open>\<open>v.trim()\<close>: a \<open>TypeError\<close>, here \<open>None\<close>, unless \<open>v\<close> is a string.\<close>

fun trim_value :: "jsvalue \<Rightarrow> string option" where
  "trim_value (JStr s) = Some (js_trim s)"
| "trim_value _ = None"

text \<open>\<open>xs.join(sep)\<close>.\<close>

fun js_join :: "string \<Rightarrow> string list \<Rightarrow> string" where
  "js_join sep [] = []"
| "js_join sep [m] = m"
| "js_join sep (m # ms) = m @ sep @ js_join sep ms"

text \<open>
  \<open>parseInt(v) || 0\<close> on a value of the body: \<open>parseInt\<close> reads the value as a
  string, an array of strings as its elements joined by commas.
\<close>

fun parseInt_value_or0 :: "jsvalue \<Rightarrow> int" where
  "parseInt_value_or0 (JStr s) = (case parseInt_auto s of None \<Rightarrow> 0 | Some n \<Rightarrow> n)"
| "parseInt_value_or0 (JNum n) = n"
| "parseInt_value_or0 (JArr xs) =
     (case parseInt_auto (js_join '','' xs) of None \<Rightarrow> 0 | Some n \<Rightarrow> n)"
| "parseInt_value_or0 _ = 0"

datatype update_error = TypeError | CastFailed string | ValidationError "string list"

text \<open>
  Lines 329--353: \<open>updateData\<close> holds the fields present in the body, then
  \<open>updatedBy\<close>. \<open>new Date(v)\<close> is a parameter, \<open>None\<close> for an invalid date, which
  the update cannot cast.
\<close>

definition add_trimmed :: "doc \<Rightarrow> string \<Rightarrow> update_error + doc \<Rightarrow> update_error + doc" where
  "add_trimmed body k acc =
     (case acc of
        Inl e \<Rightarrow> Inl e
      | Inr upd \<Rightarrow>
          (case get_path body k of
             None \<Rightarrow> Inr upd
           | Some v \<Rightarrow>
               (case trim_value v of
                  None \<Rightarrow> Inl TypeError
                | Some s \<Rightarrow> Inr (set_path k (JStr s) upd))))"

definition add_with :: "doc \<Rightarrow> string \<Rightarrow> (jsvalue \<Rightarrow> update_error + jsvalue)
                        \<Rightarrow> update_error + doc \<Rightarrow> update_error + doc" where
  "add_with body k conv acc =
     (case acc of
        Inl e \<Rightarrow> Inl e
      | Inr upd \<Rightarrow>
          (case get_path body k of
             None \<Rightarrow> Inr upd
           | Some v \<Rightarrow>
               (case conv v of
                  Inl e \<Rightarrow> Inl e
                | Inr w \<Rightarrow> Inr (set_path k w upd))))"

definition build_updateData ::
  "(jsvalue \<Rightarrow> int option) \<Rightarrow> principal \<Rightarrow> doc \<Rightarrow> update_error + doc" where
  "build_updateData parse_date caller body =
     (let u1 = add_trimmed body ''title'' (Inr []);
          u2 = add_trimmed body ''description'' u1;
          u3 = add_with body ''date''
                 (\<lambda>v. case parse_date v of None \<Rightarrow> Inl (CastFailed ''date'')
                                          | Some t \<Rightarrow> Inr (JDate t)) u2;
          u4 = add_trimmed body ''time'' u3;
          u5 = add_trimmed body ''location'' u4;
          u6 = add_with body ''type'' Inr u5;
          u7 = add_with body ''status'' Inr u6;
          u8 = add_with body ''isFeatured'' (\<lambda>v. Inr (JBool (truthy v))) u7;
          u9 = add_with body ''registeredAttendees'' (\<lambda>v. Inr (JNum (parseInt_value_or0 v))) u8;
          u10 = add_with body ''imageUrl'' (\<lambda>v. Inr (if truthy v then v else JStr [])) u9;
          u11 = add_with body ''registrationUrl''
                  (\<lambda>v. if truthy v
                       then (case trim_value v of None \<Rightarrow> Inl TypeError | Some s \<Rightarrow> Inr (JStr s))
                       else Inr (JStr [])) u10
      in case u11 of
           Inl e \<Rightarrow> Inl e
         | Inr upd \<Rightarrow> Inr (set_path ''updatedBy'' (JId (p_id caller)) upd))"

text \<open>
  Casting a value to a \<open>String\<close> path: a string stays, with the \<open>trim\<close> setter where
  the schema has it; a boolean becomes its name; anything else that can reach these paths
  from a JSON body does not cast, apart from numbers, whose decimal form is a parameter.
\<close>

definition cast_string :: "(int \<Rightarrow> string) \<Rightarrow> bool \<Rightarrow> string \<Rightarrow> jsvalue \<Rightarrow> update_error + jsvalue" where
  "cast_string show_num trimmed k v =
     (case v of
        JStr s \<Rightarrow> Inr (JStr (if trimmed then js_trim s else s))
      | JNum n \<Rightarrow> Inr (JStr (show_num n))
      | JBool b \<Rightarrow> Inr (JStr (if b then ''true'' else ''false''))
      | JNull \<Rightarrow> Inr JNull
      | _ \<Rightarrow> Inl (CastFailed k))"

definition cast_path :: "(int \<Rightarrow> string) \<Rightarrow> string \<times> jsvalue \<Rightarrow> update_error + string \<times> jsvalue" where
  "cast_path show_num kv =
     (let k = fst kv; v = snd kv in
      if k \<in> set [''title'', ''description'', ''time'', ''location'', ''imageUrl'',
                    ''registrationUrl'']
      then (case cast_string show_num True k v of Inl e \<Rightarrow> Inl e | Inr w \<Rightarrow> Inr (k, w))
      else if k \<in> set [''type'', ''status'']
      then (case cast_string show_num False k v of Inl e \<Rightarrow> Inl e | Inr w \<Rightarrow> Inr (k, w))
      else Inr (k, v))"

fun cast_update :: "(int \<Rightarrow> string) \<Rightarrow> doc \<Rightarrow> update_error + doc" where
  "cast_update show_num [] = Inr []"
| "cast_update show_num (kv # upd) =
     (case cast_path show_num kv of
        Inl e \<Rightarrow> Inl e
      | Inr kw \<Rightarrow>
          (case cast_update show_num upd of
             Inl e \<Rightarrow> Inl e
           | Inr rest \<Rightarrow> Inr (kw # rest)))"

text \<open>
  The schema's validators, run on the paths of the update (\<open>runValidators: true\<close>).
  Whether a string is a URL (\<open>new URL(v)\<close> does not throw) is a parameter.
\<close>

definition is_empty_value :: "jsvalue \<Rightarrow> bool" where
  "is_empty_value v = (v = JNull \<or> v = JStr [])"

definition too_long :: "nat \<Rightarrow> jsvalue \<Rightarrow> bool" where
  "too_long n v = (case v of JStr s \<Rightarrow> n < length s | _ \<Rightarrow> False)"

definition not_in_enum :: "string list \<Rightarrow> jsvalue \<Rightarrow> bool" where
  "not_in_enum vs v = (case v of JStr s \<Rightarrow> s \<notin> set vs | _ \<Rightarrow> False)"

definition validate_path :: "(string \<Rightarrow> bool) \<Rightarrow> string \<times> jsvalue \<Rightarrow> string list" where
  "validate_path valid_url kv =
     (let k = fst kv; v = snd kv in
      if k = ''title'' then
        (if is_empty_value v then [''Event title is required'']
         else if too_long 200 v then [''Title cannot exceed 200 characters''] else [])
      else if k = ''description'' then
        (if is_empty_value v then [''Event description is required'']
         else if too_long 2000 v then [''Description cannot exceed 2000 characters''] else [])
      else if k = ''date'' then
        (if is_empty_value v then [''Event date is required''] else [])
      else if k = ''time'' then
        (if is_empty_value v then [''Event time is required''] else [])
      else if k = ''location'' then
        (if is_empty_value v then [''Event location is required'']
         else if too_long 200 v then [''Location cannot exceed 200 characters''] else [])
      else if k = ''type'' then
        (if is_empty_value v then [''Event type is required'']
         else if not_in_enum [''workshop'', ''seminar'', ''support-group'', ''training'',
                              ''community''] v
         then [''Event type must be one of: workshop, seminar, support-group, training, community'']
         else [])
      else if k = ''status'' then
        (if not_in_enum [''upcoming'', ''ongoing'', ''completed'', ''cancelled''] v
         then [''Status must be one of: upcoming, ongoing, completed, cancelled''] else [])
      else if k = ''registeredAttendees'' then
        (case v of JNum n \<Rightarrow> if n < 0 then [''Registered attendees cannot be negative''] else []
                 | _ \<Rightarrow> [])
      else if k = ''registrationUrl'' then
        (case v of JStr s \<Rightarrow> if s = [] \<or> valid_url s then []
                            else [''Please provide a valid registration URL'']
                 | _ \<Rightarrow> [])
      else [])"

text \<open>The first document with the identifier, and its replacement.\<close>

definition has_id :: "objectId \<Rightarrow> doc \<Rightarrow> bool" where
  "has_id i d = (case get_path d ''_id'' of Some (JId j) \<Rightarrow> same_id j i | _ \<Rightarrow> False)"

fun replace_first :: "('a \<Rightarrow> bool) \<Rightarrow> ('a \<Rightarrow> 'a) \<Rightarrow> 'a list \<Rightarrow> 'a list" where
  "replace_first P f [] = []"
| "replace_first P f (x # xs) = (if P x then f x # xs else x # replace_first P f xs)"

text \<open>\<open>$set\<close>: each pair of the update is assigned to the document.\<close>

definition apply_set :: "doc \<Rightarrow> doc \<Rightarrow> doc" where
  "apply_set upd d = foldl (\<lambda>acc kv. set_path (fst kv) (snd kv) acc) d upd"

text \<open>
  \<open>Event.findByIdAndUpdate(id, updateData, { new: true, runValidators: true })\<close> for an
  identifier that casts: the update is reduced to the schema's paths and cast, the
  validators run, and then the first document with the identifier gets the paths set and
  \<open>updatedAt\<close> stamped; the result is the new document, or nothing when there is none.
\<close>

definition findByIdAndUpdate ::
  "(int \<Rightarrow> string) \<Rightarrow> (string \<Rightarrow> bool) \<Rightarrow> int \<Rightarrow> doc list \<Rightarrow> objectId \<Rightarrow> doc
   \<Rightarrow> update_error + doc list \<times> doc option" where
  "findByIdAndUpdate show_num valid_url stamp coll i updateData =
     (case cast_update show_num (strict_paths event_schema_paths updateData) of
        Inl e \<Rightarrow> Inl e
      | Inr upd \<Rightarrow>
          (let problems = concat (map (validate_path valid_url) upd) in
           if problems \<noteq> [] then Inl (ValidationError problems)
           else
             (let change = (\<lambda>d. set_path ''updatedAt'' (JDate stamp) (apply_set upd d));
                  coll' = replace_first (has_id i) change coll
              in Inr (coll', find (has_id i) coll'))))"

text \<open>Responses of the event routes: a message, or the event with a message.\<close>

datatype event_body = EventMessage string | EventData string "doc option"

text \<open>The handler's \<open>catch\<close>.\<close>

fun update_failure :: "update_error \<Rightarrow> nat \<times> event_body" where
  "update_failure (ValidationError ms) =
     (400, EventMessage (''Validation error: '' @ js_join '', '' ms))"
| "update_failure e = (500, EventMessage ''Server error while updating event'')"

text \<open>Handler of \<open>PUT /api/events/:id\<close>, reached through \<open>requireEmployee\<close>.\<close>

definition updateEvent ::
  "(jsvalue \<Rightarrow> int option) \<Rightarrow> (int \<Rightarrow> string) \<Rightarrow> (string \<Rightarrow> bool) \<Rightarrow> int
   \<Rightarrow> doc list \<Rightarrow> principal \<Rightarrow> string \<Rightarrow> doc \<Rightarrow> doc list \<times> nat \<times> event_body" where
  "updateEvent parse_date show_num valid_url stamp coll caller i body =
     (if \<not> castable i then (coll, 404, EventMessage ''Event not found'')
      else
        (case find (has_id i) coll of
           None \<Rightarrow> (coll, 404, EventMessage ''Event not found'')
         | Some event \<Rightarrow>
             (case build_updateData parse_date caller body of
                Inl e \<Rightarrow> (coll, update_failure e)
              | Inr updateData \<Rightarrow>
                  (case findByIdAndUpdate show_num valid_url stamp coll i updateData of
                     Inl e \<Rightarrow> (coll, update_failure e)
                   | Inr (coll', updated) \<Rightarrow>
                       (coll', 200, EventData ''Event updated successfully'' updated)))))"

definition updateEventRoute ::
  "(jsvalue \<Rightarrow> int option) \<Rightarrow> (int \<Rightarrow> string) \<Rightarrow> (string \<Rightarrow> bool) \<Rightarrow> int
   \<Rightarrow> doc list \<Rightarrow> request \<Rightarrow> string \<Rightarrow> doc \<Rightarrow> doc list \<times> nat \<times> event_body" where
  "updateEventRoute parse_date show_num valid_url stamp coll req i body =
     (case requireEmployee req of
        Send n m \<Rightarrow> (coll, n, EventMessage m)
      | CallNext \<Rightarrow>
          (case req_user req of
             None \<Rightarrow> (coll, 500, EventMessage ''Server error while updating event'')
           | Some caller \<Rightarrow> updateEvent parse_date show_num valid_url stamp coll caller i body))"

subsection \<open>A sample event\<close>

definition workshop :: doc where
  "workshop =
     [(''_id'', JId ''0123456789abcdef01234580''), (''title'', JStr ''Breathing workshop''),
      (''description'', JStr ''An evening of breathing exercises''), (''date'', JDate 5000),
      (''time'', JStr ''18:00''), (''location'', JStr ''Main hall''), (''type'', JStr ''workshop''),
      (''status'', JStr ''upcoming''), (''isFeatured'', JBool False),
      (''registeredAttendees'', JNum 12), (''imageUrl'', JStr []), (''registrationUrl'', JStr []),
      (''organizer'', JId ''0123456789abcdef01234567''),
      (''createdAt'', JDate 100), (''updatedAt'', JDate 100)]"

definition no_date :: "jsvalue \<Rightarrow> int option" where
  "no_date v = None"

definition no_show :: "int \<Rightarrow> string" where
  "no_show n = []"

definition no_url :: "string \<Rightarrow> bool" where
  "no_url s = False"

section \<open>Employee routes: listing, reading, creating and updating\<close>

record employee_query =
  emq_search :: "string option"
  emq_role :: "string option"
  emq_status :: "string option"
  emq_department :: "string option"
  emq_page :: "string option"
  emq_limit :: "string option"

text \<open>
  The filter of \<open>GET /api/employees\<close> as a predicate on accounts, given the matcher of
  the search pattern, if there is a search: the role condition, replaced by the requested role when that is an
  employee role; the \<open>$or\<close> of the search over name, email and department; status and
  department when given.
\<close>

definition employee_matches ::
  "(string \<Rightarrow> bool) option \<Rightarrow> employee_query \<Rightarrow> user \<Rightarrow> bool" where
  "employee_matches matcher q u =
     ((if truthy_opt (emq_role q) \<and> arr_includes employeeRoles (the (emq_role q))
       then u_role u = the (emq_role q)
       else arr_includes employeeRoles (u_role u))
      \<and> (case matcher of
            None \<Rightarrow> True
          | Some m \<Rightarrow> m (u_name u) \<or> m (u_email u)
                      \<or> (case u_department u of None \<Rightarrow> False | Some dep \<Rightarrow> m dep))
      \<and> (truthy_opt (emq_status q) \<longrightarrow> u_status u = emq_status q)
      \<and> (truthy_opt (emq_department q) \<longrightarrow> u_department u = emq_department q))"

text \<open>\<open>.sort({ createdAt: -1 })\<close>.\<close>

definition newest_first :: "user \<Rightarrow> user \<Rightarrow> bool" where
  "newest_first a b = (u_createdAt b \<le> u_createdAt a)"

text \<open>
  \<open>const { page = 1, limit = 50 } = req.query\<close> followed by \<open>parseInt\<close>: the default
  applies to a missing parameter only.
\<close>

definition parseInt_default :: "string option \<Rightarrow> int \<Rightarrow> int option" where
  "parseInt_default v dflt = (case v of None \<Rightarrow> Some dflt | Some s \<Rightarrow> parseInt_auto s)"

text \<open>
  The matcher of the search parameter: nothing when its pattern does not compile, no
  matcher when there is no search.
\<close>

definition search_matcher :: "regex_engine \<Rightarrow> string option \<Rightarrow> (string \<Rightarrow> bool) option option" where
  "search_matcher rx s =
     (if truthy_opt s then map_option Some (regex_i rx (the s)) else Some None)"

text \<open>
  Handler of \<open>GET /api/employees\<close>. The store applies the skip before the limit,
  whatever the order of the calls, and refuses a pattern that does not compile, a limit or
  skip that is \<open>NaN\<close> and a negative skip; \<open>Math.ceil(totalCount / 0)\<close> is not
  finite.
\<close>

definition listEmployees :: "regex_engine \<Rightarrow> user list \<Rightarrow> employee_query \<Rightarrow> emp_response" where
  "listEmployees rx store q =
     (case search_matcher rx (emq_search q) of
        None \<Rightarrow> (500, Failure ''Failed to fetch employees'' ''Regular expression is invalid'')
      | Some matcher \<Rightarrow>
          (case (parseInt_default (emq_page q) 1, parseInt_default (emq_limit q) 50) of
             (Some page, Some limit) \<Rightarrow>
               if (page - 1) * limit < 0
               then (500, Failure ''Failed to fetch employees'' ''Skip value must be non-negative'')
               else
                 (let found = filter (employee_matches matcher q) store;
                      employees = map select_no_password
                                    (take_limit limit
                                       (drop (nat ((page - 1) * limit))
                                          (sort_by newest_first found)));
                      totalCount = length found
                  in (200, Employees employees totalCount page
                             (if limit = 0 then None
                              else Some (ceil_div (int totalCount) limit))))
           | _ \<Rightarrow> (500, Failure ''Failed to fetch employees'' ''limit and skip must be numbers'')))"

text \<open>Handler of \<open>GET /api/employees/:id\<close>.\<close>

definition getEmployee :: "user list \<Rightarrow> string \<Rightarrow> emp_response" where
  "getEmployee store i =
     (case findById store (Some i) of
        Inl err \<Rightarrow> (500, Failure ''Failed to fetch employee'' (cast_error_message i))
      | Inr None \<Rightarrow> (404, Message ''Employee not found'')
      | Inr (Some found) \<Rightarrow>
          (let employee = select_no_password found in
           if \<not> arr_includes employeeRoles (u_role employee)
           then (404, Message ''Employee not found'')
           else (200, Employee employee None)))"

text \<open>
  The body of a create or update request. \<open>phone\<close> distinguishes \<open>undefined\<close> (absent)
  from \<open>null\<close>, since the update tests \<open>phone !== undefined\<close>.
\<close>

record employee_body =
  b_name :: "string option"
  b_email :: "string option"
  b_phone :: "string option option"
  b_role :: "string option"
  b_department :: "string option"
  b_status :: "string option"
  b_permissions :: "string list option"
  b_password :: "string option"

text \<open>
  What \<open>save()\<close> needs from outside: the schema's validation of a document, giving the
  error message when it fails, and the hash \<open>bcrypt\<close> computes in the pre-save hook.
\<close>

record save_env =
  validate :: "user \<Rightarrow> string option"
  hash :: "string \<Rightarrow> string"

text \<open>\<open>User.findOne({ email })\<close>.\<close>

definition findOne_email :: "user list \<Rightarrow> string \<Rightarrow> user option" where
  "findOne_email store e = find (\<lambda>u. u_email u = e) store"

text \<open>
  Handler of \<open>POST /api/employees\<close>. \<open>new_id\<close> and \<open>stamp\<close> are the identifier and the
  creation time the new document gets. Validation sees the document with the password as
  sent; the pre-save hook then stores its hash; the response is the saved document with
  \<open>password\<close> deleted.
\<close>

definition createEmployee ::
  "save_env \<Rightarrow> objectId \<Rightarrow> int \<Rightarrow> user list \<Rightarrow> principal \<Rightarrow> employee_body
   \<Rightarrow> user list \<times> emp_response" where
  "createEmployee env new_id stamp store caller body =
     (if \<not> truthy_opt (b_name body) \<or> \<not> truthy_opt (b_email body)
         \<or> \<not> truthy_opt (b_password body) \<or> \<not> truthy_opt (b_role body)
         \<or> \<not> truthy_opt (b_department body)
      then (store, (400, Message ''Name, email, password, role, and department are required''))
      else if \<not> arr_includes employeeRoles (the (b_role body))
      then (store, (400, Message ''Invalid role. Must be admin, manager, staff, or support''))
      else if findOne_email store (the (b_email body)) \<noteq> None
      then (store, (400, Message ''Email already exists''))
      else
        (let employee =
               \<lparr> u_id = new_id, u_name = the (b_name body), u_email = the (b_email body),
                 u_role = the (b_role body), u_password = b_password body,
                 u_phone = (case b_phone body of None \<Rightarrow> None | Some ph \<Rightarrow> ph),
                 u_department = b_department body,
                 u_status = (if truthy_opt (b_status body) then b_status body else Some ''active''),
                 u_permissions = (case b_permissions body of None \<Rightarrow> Some [] | Some ps \<Rightarrow> Some ps),
                 u_isEmailVerified = False, u_mustChangePassword = False,
                 u_createdBy = Some (p_id caller), u_createdAt = stamp, u_rest = [] \<rparr>
         in case validate env employee of
              Some problem \<Rightarrow> (store, (500, Failure ''Failed to create employee'' problem))
            | None \<Rightarrow>
                (let saved = employee\<lparr>u_password := Some (hash env (the (b_password body)))\<rparr>;
                     employeeResponse = saved\<lparr>u_password := None\<rparr>
                 in (store @ [saved],
                     (201, Employee employeeResponse (Some ''Employee created successfully''))))))"

text \<open>
  Handler of \<open>PUT /api/employees/:id\<close>. \<open>findById\<close> loads the document without its
  password (\<open>select: false\<close>), so \<open>save()\<close> writes the other paths and leaves the stored
  password as it is.
\<close>

definition apply_employee_update :: "employee_body \<Rightarrow> user \<Rightarrow> user" where
  "apply_employee_update body employee =
     (let e1 = (if truthy_opt (b_name body) then employee\<lparr>u_name := the (b_name body)\<rparr>
                else employee);
          e2 = (if truthy_opt (b_email body) then e1\<lparr>u_email := the (b_email body)\<rparr> else e1);
          e3 = (case b_phone body of None \<Rightarrow> e2 | Some ph \<Rightarrow> e2\<lparr>u_phone := ph\<rparr>);
          e4 = (if truthy_opt (b_role body) then e3\<lparr>u_role := the (b_role body)\<rparr> else e3);
          e5 = (if truthy_opt (b_department body) then e4\<lparr>u_department := b_department body\<rparr>
                else e4);
          e6 = (if truthy_opt (b_status body) then e5\<lparr>u_status := b_status body\<rparr> else e5)
      in (case b_permissions body of None \<Rightarrow> e6 | Some ps \<Rightarrow> e6\<lparr>u_permissions := Some ps\<rparr>))"

definition updateEmployee ::
  "save_env \<Rightarrow> user list \<Rightarrow> string \<Rightarrow> employee_body \<Rightarrow> user list \<times> emp_response" where
  "updateEmployee env store i body =
     (case findById store (Some i) of
        Inl err \<Rightarrow> (store, (500, Failure ''Failed to update employee'' (cast_error_message i)))
      | Inr None \<Rightarrow> (store, (404, Message ''Employee not found''))
      | Inr (Some found) \<Rightarrow>
          (let employee = select_no_password found in
           if \<not> arr_includes employeeRoles (u_role employee)
           then (store, (404, Message ''Employee not found''))
           else if truthy_opt (b_email body) \<and> the (b_email body) \<noteq> u_email employee
                   \<and> findOne_email store (the (b_email body)) \<noteq> None
           then (store, (400, Message ''Email already exists''))
           else if truthy_opt (b_role body) \<and> \<not> arr_includes employeeRoles (the (b_role body))
           then (store, (400, Message ''Invalid role. Must be admin, manager, staff, or support''))
           else
             (let changed = apply_employee_update body employee in
              case validate env changed of
                Some problem \<Rightarrow> (store, (500, Failure ''Failed to update employee'' problem))
              | None \<Rightarrow>
                  (let employeeResponse = changed\<lparr>u_password := None\<rparr>
                   in (replace_first (\<lambda>u. same_id (u_id u) i)
                         (\<lambda>old. changed\<lparr>u_password := u_password old\<rparr>) store,
                       (200, Employee employeeResponse
                               (Some ''Employee updated successfully'')))))))"

text \<open>The accounts a response carries.\<close>

fun response_accounts :: "emp_body \<Rightarrow> user list" where
  "response_accounts (Employees us n page pages) = us"
| "response_accounts (Employee u m) = [u]"
| "response_accounts _ = []"

text \<open>Two stores hold the same accounts except, possibly, for the stored password hashes.\<close>

definition same_but_passwords :: "user list \<Rightarrow> user list \<Rightarrow> bool" where
  "same_but_passwords s1 s2 = (map select_no_password s1 = map select_no_password s2)"

definition accept_all :: save_env where
  "accept_all = \<lparr> validate = (\<lambda>u. None), hash = (\<lambda>p. ''$2a$10$'' @ p) \<rparr>"

definition everyone :: employee_query where
  "everyone = \<lparr> emq_search = None, emq_role = None, emq_status = None, emq_department = None,
                emq_page = None, emq_limit = None \<rparr>"

definition rename_body :: employee_body where
  "rename_body = \<lparr> b_name = Some ''Samuel'', b_email = None, b_phone = None, b_role = None,
                   b_department = None, b_status = None, b_permissions = None,
                   b_password = None \<rparr>"

definition new_body :: employee_body where
  "new_body = \<lparr> b_name = Some ''Kim'', b_email = Some ''kim@example.org'', b_phone = None,
                b_role = Some ''support'', b_department = Some ''Help desk'', b_status = None,
                b_permissions = None, b_password = Some ''hunter22'' \<rparr>"

section \<open>Properties\<close>

subsection \<open>Credential verifier and authorization guards\<close>

text \<open>
  C1. A principal whose role is \<open>admin\<close> passes the standard and the elevated permission
  check for every permission name, whatever its permission array is (a list, the empty
  list, or absent).
\<close>

theorem admin_passes_every_permission_check:
  assumes "req_user req = Some usr" and "p_role usr = ''admin''"
  shows "requirePermission permission req = CallNext
       \<and> requireNewPermission permission req = CallNext"
  using assms by (simp add: requirePermission_def requireNewPermission_def)

theorem admin_passes_every_permission_check_witness:
  "requirePermission ''delete_users''
     \<lparr> authorization = None,
       req_user = Some \<lparr> p_id = ''1'', p_name = ''Ada'', p_email = ''ada@example.org'',
                         p_role = ''admin'', p_department = None,
                         p_permissions = None, p_status = ''active'' \<rparr> \<rparr> = CallNext
   \<and> requireNewPermission ''delete_users''
     \<lparr> authorization = None,
       req_user = Some \<lparr> p_id = ''1'', p_name = ''Ada'', p_email = ''ada@example.org'',
                         p_role = ''admin'', p_department = None,
                         p_permissions = None, p_status = ''active'' \<rparr> \<rparr> = CallNext"
  using admin_passes_every_permission_check
    [where permission = "''delete_users''"
       and usr = "\<lparr> p_id = ''1'', p_name = ''Ada'', p_email = ''ada@example.org'',
                    p_role = ''admin'', p_department = None,
                    p_permissions = None, p_status = ''active'' \<rparr>"
       and req = "\<lparr> authorization = None,
                    req_user = Some \<lparr> p_id = ''1'', p_name = ''Ada'',
                      p_email = ''ada@example.org'', p_role = ''admin'', p_department = None,
                      p_permissions = None, p_status = ''active'' \<rparr> \<rparr>"]
  by simp

text \<open>
  C8. The standard and the elevated permission check decide alike: for every request, with
  or without a principal, and every permission name, both deny with 401 when no principal
  is attached, allow a principal of role \<open>admin\<close>, allow a principal whose permission
  array holds the name, and deny with 403 otherwise. (Only the text of the 403 message
  differs.)
\<close>

theorem permission_checks_same_decision:
  "decision_of (requirePermission permission req)
     = decision_of (requireNewPermission permission req)
   \<and> decision_of (requirePermission permission req)
     = (case req_user req of
          None \<Rightarrow> Deny 401
        | Some usr \<Rightarrow>
            if p_role usr = ''admin'' then Allow
            else if (\<exists>ps. p_permissions usr = Some ps \<and> permission \<in> set ps) then Allow
            else Deny 403)"
  by (auto simp: requirePermission_def requireNewPermission_def lacks_permission_def
        arr_includes_def split: option.splits)

theorem permission_checks_same_decision_witness:
  "decision_of (requirePermission ''manage_users''
      \<lparr> authorization = None,
        req_user = Some \<lparr> p_id = ''2'', p_name = ''Sam'', p_email = ''sam@example.org'',
                          p_role = ''staff'', p_department = None,
                          p_permissions = Some [], p_status = ''active'' \<rparr> \<rparr>) = Deny 403
   \<and> decision_of (requireNewPermission ''manage_users''
      \<lparr> authorization = None,
        req_user = Some \<lparr> p_id = ''2'', p_name = ''Sam'', p_email = ''sam@example.org'',
                          p_role = ''staff'', p_department = None,
                          p_permissions = Some [], p_status = ''active'' \<rparr> \<rparr>) = Deny 403"
  using permission_checks_same_decision
    [of "''manage_users''"
        "\<lparr> authorization = None,
           req_user = Some \<lparr> p_id = ''2'', p_name = ''Sam'', p_email = ''sam@example.org'',
                             p_role = ''staff'', p_department = None,
                             p_permissions = Some [], p_status = ''active'' \<rparr> \<rparr>"]
  by auto

text \<open>
  C2. \<open>authenticateToken\<close> answers 401 in exactly four cases: the header yields no bearer
  token; \<open>jwt.verify\<close> throws; the decoded identifier finds no stored account (none
  under that identifier, or the identifier cannot be cast); the account found has a
  status, a non-empty string, other than \<open>active\<close> (JavaScript reads an empty status
  as an absent one, and the schema's enum has no empty value). In each of them the request
  is left as it was, so no principal is attached, and \<open>next()\<close> is not called. In every
  other case \<open>next()\<close> is called with a principal attached.
\<close>

theorem authenticateToken_rejects_exactly:
  "((\<exists>m. snd (authenticateToken verify store req) = Send 401 m) \<longleftrightarrow>
      (\<not> truthy_opt (bearer_token req)
       \<or> (\<exists>tok. bearer_token req = Some tok \<and> verify tok = None)
       \<or> (\<exists>tok d. bearer_token req = Some tok \<and> verify tok = Some d
            \<and> (\<forall>u. findById store d \<noteq> Inr (Some u)))
       \<or> (\<exists>tok d u s. bearer_token req = Some tok \<and> verify tok = Some d
            \<and> findById store d = Inr (Some u)
            \<and> u_status u = Some s \<and> s \<noteq> [] \<and> s \<noteq> ''active'')))
   \<and> ((\<exists>m. snd (authenticateToken verify store req) = Send 401 m) \<longrightarrow>
         fst (authenticateToken verify store req) = req
         \<and> snd (authenticateToken verify store req) \<noteq> CallNext)
   \<and> ((\<nexists>m. snd (authenticateToken verify store req) = Send 401 m) \<longrightarrow>
         snd (authenticateToken verify store req) = CallNext
         \<and> req_user (fst (authenticateToken verify store req)) \<noteq> None)"
  by (auto simp: authenticateToken_def truthy_opt_def truthy_str_def Let_def
        select_no_password_def split: option.splits sum.splits)

theorem authenticateToken_rejects_exactly_witness:
  "(\<exists>m. snd (authenticateToken sample_verify [ada, sam] (bearer ''t-sam'')) = Send 401 m)
   \<and> fst (authenticateToken sample_verify [ada, sam] (bearer ''t-sam'')) = bearer ''t-sam''
   \<and> snd (authenticateToken sample_verify [ada, sam] (bearer ''t-sam'')) \<noteq> CallNext"
proof -
  have tok: "bearer_token (bearer ''t-sam'') = Some ''t-sam''"
    by (simp add: bearer_token_def bearer_def truthy_str_def startsWith_def)
  have ver: "sample_verify ''t-sam'' = Some (Some ''0123456789abcdef01234568'')"
    by (simp add: sample_verify_def)
  have fnd: "findById [ada, sam] (Some ''0123456789abcdef01234568'') = Inr (Some sam)"
    by code_simp
  have st: "u_status sam = Some ''suspended'' \<and> ''suspended'' \<noteq> [] \<and> ''suspended'' \<noteq> ''active''"
    by (simp add: sam_def)
  from tok ver fnd st
  have "\<exists>tok d u s. bearer_token (bearer ''t-sam'') = Some tok \<and> sample_verify tok = Some d
          \<and> findById [ada, sam] d = Inr (Some u)
          \<and> u_status u = Some s \<and> s \<noteq> [] \<and> s \<noteq> ''active''"
    by blast
  with authenticateToken_rejects_exactly [of sample_verify "[ada, sam]" "bearer ''t-sam''"]
  show ?thesis by blast
qed

subsection \<open>Upload routes\<close>

text \<open>
  C9. A deletion or info request whose filename contains \<open>..\<close>, a slash or a backslash is
  answered 400 ``Invalid filename'' by the handler without any call into the file system
  (no existence check, no stat, no unlink) and with the file system unchanged; behind the
  \<open>authorize('admin')\<close> guard the same holds for a caller of role \<open>admin\<close>, and
  for any other caller the guard answers first, again without a call into the file system.
\<close>

theorem traversal_filename_rejected_before_fs:
  assumes "str_includes filename ''..'' \<or> str_includes filename ''/''
           \<or> str_includes filename [CHR 0x5C]"
  shows "delete_upload cwd fs filename = (fs, [], Fail 400 ''Invalid filename'')
       \<and> upload_info cwd fs filename = (fs, [], Fail 400 ''Invalid filename'')
       \<and> (\<forall>req usr. req_user req = Some usr \<and> p_role usr = ''admin'' \<longrightarrow>
            admin_upload_route delete_upload req cwd fs filename
              = (fs, [], Fail 400 ''Invalid filename'')
          \<and> admin_upload_route upload_info req cwd fs filename
              = (fs, [], Fail 400 ''Invalid filename''))
       \<and> (\<forall>req. fst (snd (admin_upload_route delete_upload req cwd fs filename)) = []
                \<and> fst (snd (admin_upload_route upload_info req cwd fs filename)) = [])"
  using assms
  by (simp add: delete_upload_def upload_info_def invalid_filename_def
        admin_upload_route_def authorize_def arr_includes_def split: action.splits)

theorem traversal_filename_rejected_before_fs_witness:
  "str_includes ''../../etc/passwd'' ''..''
   \<and> delete_upload ''/srv/app'' Map.empty ''../../etc/passwd''
        = (Map.empty, [], Fail 400 ''Invalid filename'')
   \<and> upload_info ''/srv/app'' Map.empty ''../../etc/passwd''
        = (Map.empty, [], Fail 400 ''Invalid filename'')"
proof -
  have h: "str_includes ''../../etc/passwd'' ''..''"
    by (simp add: startsWith_def)
  with traversal_filename_rejected_before_fs
         [of "''../../etc/passwd''" "''/srv/app''" Map.empty]
  show ?thesis by blast
qed

subsection \<open>Employee deletion\<close>

lemma same_id_refl: "same_id a a"
  by (simp add: same_id_def)

text \<open>
  With a permission array the schema admits, the elevated \<open>delete_users\<close> check lets
  only an admin through: the enum has no such value.
\<close>

lemma delete_users_needs_admin:
  assumes "requireNewPermission ''delete_users'' req = CallNext"
    and "req_user req = Some (principal_of u)"
    and "schema_permissions u"
  shows "u_role u = ''admin''"
proof (rule ccontr)
  assume n: "u_role u \<noteq> ''admin''"
  with assms(1,2) have "\<not> lacks_permission (principal_of u) ''delete_users''"
    by (auto simp: requireNewPermission_def principal_of_def split: if_splits)
  then obtain ps where "p_permissions (principal_of u) = Some ps" and "''delete_users'' \<in> set ps"
    by (auto simp: lacks_permission_def arr_includes_def split: option.splits)
  then have "\<exists>qs. u_permissions u = Some qs \<and> ''delete_users'' \<in> set qs"
    by (auto simp: principal_of_def split: option.splits)
  with assms(3) have "arr_includes permission_enum ''delete_users''"
    by (auto simp: schema_permissions_def list_all_iff)
  then show False by (simp add: arr_includes_def permission_enum_def)
qed

text \<open>
  C3. Take a deletion request by a caller who passes the elevated \<open>delete_users\<close> check
  and supplies the master code, aimed at a stored record. If the record's role is
  \<open>admin\<close> and the store holds no other admin record, the answer is 400 ``Cannot delete
  the last admin user'' and the store is unchanged. If the record is the caller's own
  account, with a permission array the schema admits, or simply with an employee role, the
  answer is again 400 and the store is unchanged: the message is ``Cannot delete your own
  account'', except that the last-admin test comes first, so the only admin deleting their
  own account is told ``Cannot delete the last admin user''.
\<close>

theorem delete_safeguards:
  assumes "requireNewPermission ''delete_users'' req = CallNext"
    and "req_user req = Some caller"
    and "masterCode = env_code"
    and "findById store (Some employeeId) = Inr (Some employee)"
  shows "(u_role employee = ''admin'' \<and> count_admins store \<le> 1 \<longrightarrow>
            deleteEmployeeRoute env_code store req masterCode employeeId
              = (store, (400, Message ''Cannot delete the last admin user'')))
       \<and> (caller = principal_of employee \<and> schema_permissions employee \<longrightarrow>
            deleteEmployeeRoute env_code store req masterCode employeeId
              = (store, (400, Message
                   (if count_admins store \<le> 1 then ''Cannot delete the last admin user''
                    else ''Cannot delete your own account''))))
       \<and> (same_id (u_id employee) (p_id caller) \<and> u_role employee \<in> set employeeRoles \<longrightarrow>
            deleteEmployeeRoute env_code store req masterCode employeeId
              = (store, (400, Message
                   (if u_role employee = ''admin'' \<and> count_admins store \<le> 1
                    then ''Cannot delete the last admin user''
                    else ''Cannot delete your own account''))))"
proof (intro conjI impI)
  assume "u_role employee = ''admin'' \<and> count_admins store \<le> 1"
  with assms show "deleteEmployeeRoute env_code store req masterCode employeeId
                     = (store, (400, Message ''Cannot delete the last admin user''))"
    by (simp add: deleteEmployeeRoute_def deleteEmployee_def arr_includes_def employeeRoles_def)
next
  assume own: "same_id (u_id employee) (p_id caller) \<and> u_role employee \<in> set employeeRoles"
  with assms show "deleteEmployeeRoute env_code store req masterCode employeeId
                     = (store, (400, Message
                          (if u_role employee = ''admin'' \<and> count_admins store \<le> 1
                           then ''Cannot delete the last admin user''
                           else ''Cannot delete your own account'')))"
    by (simp add: deleteEmployeeRoute_def deleteEmployee_def arr_includes_def)
next
  assume own: "caller = principal_of employee \<and> schema_permissions employee"
  with assms(2) have u: "req_user req = Some (principal_of employee)" by simp
  from delete_users_needs_admin [OF assms(1) u] own
  have adm: "u_role employee = ''admin''" by simp
  from own have "p_id caller = u_id employee" by (simp add: principal_of_def)
  then have sid: "same_id (u_id employee) (p_id caller)" by (simp add: same_id_refl)
  from assms adm sid
  show "deleteEmployeeRoute env_code store req masterCode employeeId
          = (store, (400, Message
               (if count_admins store \<le> 1 then ''Cannot delete the last admin user''
                else ''Cannot delete your own account'')))"
    by (simp add: deleteEmployeeRoute_def deleteEmployee_def arr_includes_def employeeRoles_def)
qed

theorem delete_safeguards_witness:
  "requireNewPermission ''delete_users'' (as_caller ada) = CallNext
   \<and> findById [ada, sam] (Some (u_id ada)) = Inr (Some ada)
   \<and> schema_permissions ada
   \<and> deleteEmployeeRoute (Some ''s3cret'') [ada, sam] (as_caller ada) (Some ''s3cret'') (u_id ada)
     = ([ada, sam], (400, Message ''Cannot delete the last admin user''))
   \<and> requireNewPermission ''delete_users'' (as_caller bob) = CallNext
   \<and> findById [ada, bob] (Some (u_id bob)) = Inr (Some bob)
   \<and> schema_permissions bob
   \<and> deleteEmployeeRoute (Some ''s3cret'') [ada, bob] (as_caller bob) (Some ''s3cret'') (u_id bob)
     = ([ada, bob], (400, Message ''Cannot delete your own account''))"
proof -
  have perm: "requireNewPermission ''delete_users'' (as_caller ada) = CallNext"
             "requireNewPermission ''delete_users'' (as_caller bob) = CallNext"
    by (simp_all add: requireNewPermission_def as_caller_def principal_of_def ada_def bob_def)
  have usr: "req_user (as_caller ada) = Some (principal_of ada)"
            "req_user (as_caller bob) = Some (principal_of bob)"
    by (simp_all add: as_caller_def)
  have fnd: "findById [ada, sam] (Some (u_id ada)) = Inr (Some ada)"
            "findById [ada, bob] (Some (u_id bob)) = Inr (Some bob)"
    by code_simp+
  have sch: "schema_permissions ada" "schema_permissions bob"
    by (simp_all add: schema_permissions_def ada_def bob_def)
  have last: "u_role ada = ''admin'' \<and> count_admins [ada, sam] \<le> 1"
    by (simp add: count_admins_def ada_def sam_def)
  have two: "\<not> count_admins [ada, bob] \<le> 1"
    by (simp add: count_admins_def ada_def bob_def)
  from delete_safeguards [OF perm(1) usr(1) refl fnd(1)] last
  have a: "deleteEmployeeRoute (Some ''s3cret'') [ada, sam] (as_caller ada) (Some ''s3cret'')
             (u_id ada) = ([ada, sam], (400, Message ''Cannot delete the last admin user''))"
    by blast
  from delete_safeguards [OF perm(2) usr(2) refl fnd(2)] sch(2)
  have "deleteEmployeeRoute (Some ''s3cret'') [ada, bob] (as_caller bob) (Some ''s3cret'')
          (u_id bob)
        = ([ada, bob], (400, Message
             (if count_admins [ada, bob] \<le> 1 then ''Cannot delete the last admin user''
              else ''Cannot delete your own account'')))"
    by blast
  with two
  have b: "deleteEmployeeRoute (Some ''s3cret'') [ada, bob] (as_caller bob) (Some ''s3cret'')
             (u_id bob) = ([ada, bob], (400, Message ''Cannot delete your own account''))"
    by simp
  from perm fnd sch a b show ?thesis by blast
qed

subsection \<open>Queries: sorting, windows and filters\<close>

lemma set_insort_by: "set (insort_by le x xs) = insert x (set xs)"
  by (induction xs) auto

lemma set_sort_by: "set (sort_by le xs) = set xs"
  unfolding sort_by_def by (induction xs) (auto simp: set_insort_by)

lemma length_insort_by: "length (insort_by le x xs) = Suc (length xs)"
  by (induction xs) auto

lemma length_sort_by: "length (sort_by le xs) = length xs"
  unfolding sort_by_def by (induction xs) (auto simp: length_insort_by)

lemma set_take_limit: "set (take_limit n xs) \<subseteq> set xs"
  by (auto simp: take_limit_def dest: in_set_takeD)

lemma length_take_limit: "n \<noteq> 0 \<Longrightarrow> length (take_limit n xs) \<le> nat \<bar>n\<bar>"
  by (simp add: take_limit_def)

lemma find_docs_sound:
  assumes "find_docs rx coll f spec skip lmt = Inr ds" and "d \<in> set ds"
  shows "matches rx f d \<and> d \<in> set coll"
proof -
  from assms
  have "d \<in> set (take_limit lmt (drop (nat skip)
                   (sort_by (doc_le spec) (filter (matches rx f) coll))))"
    by (auto simp: find_docs_def split: if_splits)
  then have "d \<in> set (sort_by (doc_le spec) (filter (matches rx f) coll))"
    using set_take_limit in_set_dropD by fast
  then show ?thesis by (simp add: set_sort_by)
qed

lemma matches_clause:
  "matches rx f d \<Longrightarrow> (k, c) \<in> set f \<Longrightarrow> clause_matches rx d (k, c)"
  by (simp add: matches_def list_all_iff)

lemma set_path_other:
  "(k, c) \<in> set f \<Longrightarrow> k \<noteq> k' \<Longrightarrow> (k, c) \<in> set (set_path k' c' f)"
  by (induction f) auto

lemma set_path_same: "(k, c) \<in> set (set_path k c f)"
  by (induction f) auto

text \<open>\<open>str_includes\<close> is the substring relation.\<close>

lemma str_includes_iff: "str_includes s p \<longleftrightarrow> (\<exists>pre post. s = pre @ p @ post)"
proof (induction s)
  case Nil
  then show ?case by auto
next
  case (Cons x xs)
  show ?case
  proof
    assume "str_includes (x # xs) p"
    then consider "startsWith (x # xs) p" | "str_includes xs p" by auto
    then show "\<exists>pre post. x # xs = pre @ p @ post"
    proof cases
      case 1
      then have "x # xs = [] @ p @ drop (length p) (x # xs)"
        unfolding startsWith_def by (metis append_Nil append_take_drop_id)
      then show ?thesis by blast
    next
      case 2
      with Cons.IH obtain pre post where "xs = pre @ p @ post" by blast
      then have "x # xs = (x # pre) @ p @ post" by simp
      then show ?thesis by blast
    qed
  next
    assume "\<exists>pre post. x # xs = pre @ p @ post"
    then obtain pre post where e: "x # xs = pre @ p @ post" by blast
    show "str_includes (x # xs) p"
    proof (cases pre)
      case Nil
      with e have "startsWith (x # xs) p" by (simp add: startsWith_def)
      then show ?thesis by simp
    next
      case (Cons y ys)
      with e have "xs = ys @ p @ post" by simp
      with Cons.IH have "str_includes xs p" by blast
      then show ?thesis by simp
    qed
  qed
qed

text \<open>\<open>ceil_div\<close> is the ceiling of the quotient.\<close>

lemma ceil_div_ceiling: "ceil_div a b = \<lceil>real_of_int a / real_of_int b\<rceil>"
proof -
  have "\<lfloor>real_of_int (- a) / real_of_int b\<rfloor> = (- a) div b"
    by (rule floor_divide_of_int_eq)
  then show ?thesis by (simp add: ceil_div_def ceiling_def)
qed

lemma get_path_select:
  "k \<in> set ks \<Longrightarrow> get_path (select_paths ks d) k = get_path d k"
  unfolding get_path_def select_paths_def by (induction d) auto

subsection \<open>Practitioner search\<close>

lemma regex_yoga: "regex_i rx ''yoga'' = Some (\<lambda>s. ci_includes s ''yoga'')"
  by (simp add: regex_i_def plain_char_def is_lower_def is_upper_def)

lemma lower_yoga: "lower ''yoga'' = ''yoga''"
  by (simp add: lower_def lower_char_def is_upper_def)

lemma trim_yoga: "js_trim ''yoga'' = ''yoga''"
  by (simp add: js_trim_def is_space_def)

lemma regex_match_yoga:
  assumes "oper_matches rx (Regex ''yoga'') (get_path d k)"
  shows "\<exists>s \<in> set (strings_at d k). \<exists>pre post. lower s = pre @ ''yoga'' @ post"
  using assms
  by (auto simp: regex_yoga strings_at_def ci_includes_def lower_yoga str_includes_iff
        list_ex_iff split: option.splits jsvalue.splits)

lemma search_clause_yoga:
  assumes "clause_matches rx d (''$or'', search_clause a b c ''yoga'')"
  shows "\<exists>k \<in> {a, b, c}. \<exists>s \<in> set (strings_at d k). \<exists>pre post. lower s = pre @ ''yoga'' @ post"
  using assms regex_match_yoga [of rx d a] regex_match_yoga [of rx d b]
    regex_match_yoga [of rx d c]
  by (auto simp: search_clause_def)

lemma practitioners_filter_or:
  "truthy_opt (pq_search q) \<Longrightarrow>
   (''$or'', search_clause ''name'' ''specialty'' ''bio'' (the (pq_search q)))
     \<in> set (practitioners_filter q)"
  by (simp add: practitioners_filter_def Let_def set_path_other)

lemma public_practitioners_filter_or:
  "truthy_opt (ppq_search q) \<Longrightarrow> public_practitioners_filter q = Some f \<Longrightarrow>
   (''$or'', search_clause ''name'' ''specialty'' ''bio'' (the (ppq_search q))) \<in> set f"
  by (auto simp: public_practitioners_filter_def Let_def set_path_other set_path_same
        split: if_splits option.splits)

lemma public_practitioners_filter_opt_or:
  "truthy_opt s \<Longrightarrow> truthy_str (js_trim (the s)) \<Longrightarrow>
   (''$or'', search_clause ''name'' ''specialty'' ''bio'' (js_trim (the s)))
     \<in> set (public_practitioners_filter_opt s)"
  by (auto simp: public_practitioners_filter_opt_def Let_def set_path_other set_path_same
        split: if_splits option.splits)

lemma strings_at_select:
  "k \<in> set ks \<Longrightarrow> strings_at (select_paths ks d) k = strings_at d k"
  by (simp add: strings_at_def get_path_select)

lemma list_practitioners_yoga:
  assumes "pq_search q = Some ''yoga''"
    and "d \<in> set (resp_data (list_practitioners rx coll q))"
  shows "\<exists>k \<in> {''name'', ''specialty'', ''bio''}.
           \<exists>s \<in> set (strings_at d k). \<exists>pre post. lower s = pre @ ''yoga'' @ post"
proof -
  from assms(2) obtain ds skip lmt spec
    where f: "find_docs rx coll (practitioners_filter q) spec skip lmt = Inr ds" and d: "d \<in> set ds"
    by (auto simp: list_practitioners_def Let_def split: prod.splits sum.splits)
  from find_docs_sound [OF f d] have m: "matches rx (practitioners_filter q) d" by simp
  from assms(1) have "truthy_opt (pq_search q)" by (simp add: truthy_opt_def truthy_str_def)
  from practitioners_filter_or [OF this] assms(1)
  have "(''$or'', search_clause ''name'' ''specialty'' ''bio'' ''yoga'') \<in> set (practitioners_filter q)"
    by simp
  from matches_clause [OF m this] show ?thesis by (rule search_clause_yoga)
qed

lemma list_public_practitioners_yoga:
  assumes "ppq_search q = Some ''yoga''"
    and "d \<in> set (resp_data (list_public_practitioners rx coll q))"
  shows "\<exists>k \<in> {''name'', ''specialty'', ''bio''}.
           \<exists>s \<in> set (strings_at d k). \<exists>pre post. lower s = pre @ ''yoga'' @ post"
proof -
  from assms(2) obtain f ds skip lmt spec
    where q: "public_practitioners_filter q = Some f"
      and f: "find_docs rx coll f spec skip lmt = Inr ds" and d: "d \<in> set ds"
    by (auto simp: list_public_practitioners_def Let_def
          split: prod.splits sum.splits option.splits)
  from find_docs_sound [OF f d] have m: "matches rx f d" by simp
  from assms(1) have "truthy_opt (ppq_search q)" by (simp add: truthy_opt_def truthy_str_def)
  from public_practitioners_filter_or [OF this q] assms(1)
  have "(''$or'', search_clause ''name'' ''specialty'' ''bio'' ''yoga'') \<in> set f"
    by simp
  from matches_clause [OF m this] show ?thesis by (rule search_clause_yoga)
qed

lemma list_public_practitioners_opt_yoga:
  assumes "d \<in> set (resp_data (list_public_practitioners_opt rx coll (Some ''yoga'')))"
  shows "\<exists>k \<in> {''name'', ''specialty'', ''bio''}.
           \<exists>s \<in> set (strings_at d k). \<exists>pre post. lower s = pre @ ''yoga'' @ post"
proof -
  let ?f = "public_practitioners_filter_opt (Some ''yoga'')"
  from assms obtain ds skip lmt spec d0
    where f: "find_docs rx coll ?f spec skip lmt = Inr ds" and d0: "d0 \<in> set ds"
      and d: "d = select_paths practitioner_paths d0"
    by (auto simp: list_public_practitioners_opt_def split: sum.splits)
  from find_docs_sound [OF f d0] have m: "matches rx ?f d0" by simp
  have "(''$or'', search_clause ''name'' ''specialty'' ''bio'' ''yoga'') \<in> set ?f"
    using public_practitioners_filter_opt_or [of "Some ''yoga''"]
    by (simp add: truthy_opt_def truthy_str_def trim_yoga)
  from matches_clause [OF m this]
  have "\<exists>k \<in> {''name'', ''specialty'', ''bio''}.
          \<exists>s \<in> set (strings_at d0 k). \<exists>pre post. lower s = pre @ ''yoga'' @ post"
    by (rule search_clause_yoga)
  moreover have "strings_at d ''name'' = strings_at d0 ''name''"
    "strings_at d ''specialty'' = strings_at d0 ''specialty''"
    "strings_at d ''bio'' = strings_at d0 ''bio''"
    unfolding d by (simp_all add: strings_at_select practitioner_paths_def)
  ultimately show ?thesis by auto
qed

text \<open>
  C7. With \<open>search=yoga\<close>, every record that the practitioner listing returns (the
  employees' listing, the public listing, and the public listing's unpaginated version)
  has a string at \<open>name\<close>, \<open>specialty\<close> or \<open>bio\<close> in which \<open>yoga\<close> occurs when
  case is ignored; so a record with no such string is not returned.
\<close>

theorem search_yoga_returns_only_matches:
  assumes "(pq_search q = Some ''yoga'' \<and> d \<in> set (resp_data (list_practitioners rx coll q)))
         \<or> (ppq_search pq = Some ''yoga''
              \<and> d \<in> set (resp_data (list_public_practitioners rx coll pq)))
         \<or> d \<in> set (resp_data (list_public_practitioners_opt rx coll (Some ''yoga'')))"
  shows "\<exists>k \<in> {''name'', ''specialty'', ''bio''}.
           \<exists>s \<in> set (strings_at d k). \<exists>pre post. lower s = pre @ ''yoga'' @ post"
  using assms list_practitioners_yoga list_public_practitioners_yoga
    list_public_practitioners_opt_yoga
  by blast

theorem search_yoga_returns_only_matches_witness:
  "pq_search yoga_query = Some ''yoga''
   \<and> yoga_teacher \<in> set (resp_data (list_practitioners no_regex_engine
                                        [yoga_teacher, dietitian] yoga_query))
   \<and> dietitian \<notin> set (resp_data (list_practitioners no_regex_engine
                                      [yoga_teacher, dietitian] yoga_query))
   \<and> (\<exists>k \<in> {''name'', ''specialty'', ''bio''}.
         \<exists>s \<in> set (strings_at yoga_teacher k). \<exists>pre post. lower s = pre @ ''yoga'' @ post)"
proof -
  have q: "pq_search yoga_query = Some ''yoga''"
    by (simp add: yoga_query_def)
  have m: "yoga_teacher \<in> set (resp_data (list_practitioners no_regex_engine
                                          [yoga_teacher, dietitian] yoga_query))"
    by code_simp
  have n: "dietitian \<notin> set (resp_data (list_practitioners no_regex_engine
                                        [yoga_teacher, dietitian] yoga_query))"
    by code_simp
  from q m n
    search_yoga_returns_only_matches
      [of yoga_query yoga_teacher no_regex_engine "[yoga_teacher, dietitian]"]
  show ?thesis by blast
qed

subsection \<open>Public event listing\<close>

lemma in_status_not_cancelled:
  assumes "oper_matches rx (In [''upcoming'', ''ongoing'']) v"
  shows "v \<noteq> Some (JStr ''cancelled'') \<and> v \<noteq> Some (JStr ''completed'')"
  using assms by auto

lemma gte_date:
  assumes "oper_matches rx (Gte (JDate n)) v"
  shows "\<exists>t. v = Some (JDate t) \<and> n \<le> t"
proof -
  from assms obtain y where v: "v = Some y" and le: "js_le (JDate n) y"
    by (auto split: option.splits)
  from le obtain t where "y = JDate t" and "n \<le> t" by (cases y) auto
  with v show ?thesis by simp
qed

lemma public_events_filter_status:
  "(''status'', Path [In [''upcoming'', ''ongoing'']]) \<in> set (public_events_filter clk q)"
  by (simp add: public_events_filter_def Let_def set_path_other)

lemma public_events_filter_date:
  "eq_dateRange q = None \<Longrightarrow>
   (''date'', Path [Gte (JDate (now clk))]) \<in> set (public_events_filter clk q)"
  by (simp add: public_events_filter_def Let_def set_path_other truthy_opt_def)

lemma public_events_filter_opt_status:
  "(''status'', Path [In [''upcoming'', ''ongoing'']]) \<in> set (public_events_filter_opt s)"
  by (simp add: public_events_filter_opt_def Let_def set_path_other)

lemma list_public_events_matches:
  assumes "d \<in> set (resp_data (list_public_events rx clk coll q))"
  shows "matches rx (public_events_filter clk q) d"
proof -
  from assms obtain ds skip lmt spec
    where f: "find_docs rx coll (public_events_filter clk q) spec skip lmt = Inr ds"
      and d: "d \<in> set ds"
    by (auto simp: list_public_events_def Let_def split: prod.splits sum.splits)
  from find_docs_sound [OF f d] show ?thesis by simp
qed

lemma list_public_events_opt_matches:
  assumes "d \<in> set (resp_data (list_public_events_opt rx coll s))"
  shows "\<exists>d0. d = select_paths event_paths d0 \<and> matches rx (public_events_filter_opt s) d0"
proof -
  from assms obtain ds skip lmt spec d0
    where f: "find_docs rx coll (public_events_filter_opt s) spec skip lmt = Inr ds"
      and d0: "d0 \<in> set ds" and d: "d = select_paths event_paths d0"
    by (auto simp: list_public_events_opt_def split: sum.splits)
  from find_docs_sound [OF f d0] d show ?thesis by blast
qed

text \<open>
  C5, as stated, fails on the version of the public listing that drops the date
  condition: at request time 1000 it returns the event dated 400, which the paginating
  version, on the same collection and at the same time, leaves out.
\<close>

theorem public_events_past_event_counterexample:
  "list_public_events_opt no_regex_engine [past_event, future_event] None
     = Unpaged [select_paths event_paths past_event, select_paths event_paths future_event]
   \<and> get_path (select_paths event_paths past_event) ''date'' = Some (JDate 400)
   \<and> (400::int) < now sample_clock
   \<and> list_public_events no_regex_engine sample_clock [past_event, future_event] plain_event_query
     = Paged [future_event] 1 1 1"
  by code_simp

text \<open>
  C5, amended. With no \<open>dateRange\<close> supplied, every event the paginating public listing
  returns has a date not before the request's \<open>new Date()\<close> and a status that is
  \<open>upcoming\<close> or \<open>ongoing\<close>, so neither \<open>cancelled\<close> nor \<open>completed\<close>. Every event
  the unpaginated version returns has a status that is \<open>upcoming\<close> or \<open>ongoing\<close>, so
  neither \<open>cancelled\<close> nor \<open>completed\<close>; its date is not constrained.
\<close>

theorem public_events_default_filter:
  "(eq_dateRange q = None \<and> d \<in> set (resp_data (list_public_events rx clk coll q)) \<longrightarrow>
      (\<exists>t. get_path d ''date'' = Some (JDate t) \<and> now clk \<le> t)
      \<and> get_path d ''status'' \<noteq> Some (JStr ''cancelled'')
      \<and> get_path d ''status'' \<noteq> Some (JStr ''completed'')
      \<and> (\<exists>s \<in> set (strings_at d ''status''). s = ''upcoming'' \<or> s = ''ongoing''))
   \<and> (d \<in> set (resp_data (list_public_events_opt rx coll search_param)) \<longrightarrow>
      get_path d ''status'' \<noteq> Some (JStr ''cancelled'')
      \<and> get_path d ''status'' \<noteq> Some (JStr ''completed'')
      \<and> (\<exists>s \<in> set (strings_at d ''status''). s = ''upcoming'' \<or> s = ''ongoing''))"
proof (intro conjI impI)
  assume a: "eq_dateRange q = None \<and> d \<in> set (resp_data (list_public_events rx clk coll q))"
  then have m: "matches rx (public_events_filter clk q) d"
    using list_public_events_matches by blast
  from matches_clause [OF m public_events_filter_status]
  have st: "oper_matches rx (In [''upcoming'', ''ongoing'']) (get_path d ''status'')" by simp
  from a matches_clause [OF m public_events_filter_date]
  have dt: "oper_matches rx (Gte (JDate (now clk))) (get_path d ''date'')" by simp
  from gte_date [OF dt] show "\<exists>t. get_path d ''date'' = Some (JDate t) \<and> now clk \<le> t" .
  from in_status_not_cancelled [OF st]
  show "get_path d ''status'' \<noteq> Some (JStr ''cancelled'')"
    and "get_path d ''status'' \<noteq> Some (JStr ''completed'')" by simp_all
  from st show "\<exists>s \<in> set (strings_at d ''status''). s = ''upcoming'' \<or> s = ''ongoing''"
    by (auto simp: strings_at_def list_ex_iff split: option.splits jsvalue.splits)
next
  assume "d \<in> set (resp_data (list_public_events_opt rx coll search_param))"
  then obtain d0 where d: "d = select_paths event_paths d0"
    and m: "matches rx (public_events_filter_opt search_param) d0"
    using list_public_events_opt_matches by blast
  have g: "get_path d ''status'' = get_path d0 ''status''"
    unfolding d by (simp add: get_path_select event_paths_def)
  from matches_clause [OF m public_events_filter_opt_status]
  have st: "oper_matches rx (In [''upcoming'', ''ongoing'']) (get_path d ''status'')"
    by (simp add: g)
  from in_status_not_cancelled [OF st]
  show "get_path d ''status'' \<noteq> Some (JStr ''cancelled'')"
    and "get_path d ''status'' \<noteq> Some (JStr ''completed'')" by simp_all
  from st show "\<exists>s \<in> set (strings_at d ''status''). s = ''upcoming'' \<or> s = ''ongoing''"
    by (auto simp: strings_at_def list_ex_iff split: option.splits jsvalue.splits)
qed

theorem public_events_default_filter_witness:
  "eq_dateRange plain_event_query = None
   \<and> future_event \<in> set (resp_data (list_public_events no_regex_engine sample_clock
                                       [past_event, future_event] plain_event_query))
   \<and> (\<exists>t. get_path future_event ''date'' = Some (JDate t) \<and> now sample_clock \<le> t)
   \<and> get_path future_event ''status'' \<noteq> Some (JStr ''cancelled'')
   \<and> select_paths event_paths past_event
        \<in> set (resp_data (list_public_events_opt no_regex_engine [past_event, future_event] None))
   \<and> get_path (select_paths event_paths past_event) ''status'' \<noteq> Some (JStr ''cancelled'')"
proof -
  have q: "eq_dateRange plain_event_query = None"
    by (simp add: plain_event_query_def)
  have m: "future_event \<in> set (resp_data (list_public_events no_regex_engine sample_clock
                                           [past_event, future_event] plain_event_query))"
    by code_simp
  have n: "select_paths event_paths past_event
             \<in> set (resp_data (list_public_events_opt no_regex_engine
                                 [past_event, future_event] None))"
    by code_simp
  from q m n
    public_events_default_filter
      [of plain_event_query future_event no_regex_engine sample_clock
          "[past_event, future_event]" None]
    public_events_default_filter
      [of plain_event_query "select_paths event_paths past_event" no_regex_engine sample_clock
          "[past_event, future_event]" None]
  show ?thesis by blast
qed

subsection \<open>Pagination\<close>

lemma pagination_window_2_10: "pagination_window (Some ''2'') (Some ''10'') dflt = (2, 10, 10)"
  by (simp add: pagination_window_def parseInt_or_def parseInt_def parseInt_str_def
        is_space_def is_digit_def digits_val_def digit_val_def Let_def)

lemma pagination_window_default_page:
  "fst (pagination_window None limit_param dflt) = 1"
  by (simp add: pagination_window_def parseInt_or_def parseInt_def Let_def)

lemma paged_window:
  assumes "find_docs rx coll f spec skip lmt = Inr ds"
    and "count_matching rx coll f = Inr n"
  shows "0 \<le> skip
       \<and> n = length (filter (matches rx f) coll)
       \<and> ds = take_limit lmt (drop (nat skip) (sort_by (doc_le spec) (filter (matches rx f) coll)))"
  using assms
  by (auto simp: find_docs_def count_matching_def countDocuments_def split: if_splits)

lemma count_matching_find:
  assumes "count_matching rx coll f = Inr n" and "0 \<le> skip"
  shows "find_docs rx coll f spec skip lmt
           = Inr (take_limit lmt (drop (nat skip)
                    (sort_by (doc_le spec) (filter (matches rx f) coll))))"
  using assms by (auto simp: find_docs_def count_matching_def split: if_splits)

lemma list_practitioners_paged:
  assumes "list_practitioners rx coll q = Paged ds n page pages"
  shows "page = parseInt_or (pq_page q) 1
       \<and> pages = ceil_div (int n) (parseInt_or (pq_limit q) 10)
       \<and> count_matching rx coll (practitioners_filter q) = Inr n
       \<and> find_docs rx coll (practitioners_filter q) [(''isFeatured'', False), (''createdAt'', False)]
            ((page - 1) * parseInt_or (pq_limit q) 10) (parseInt_or (pq_limit q) 10) = Inr ds"
  using assms
  by (auto simp: list_practitioners_def pagination_window_def Let_def split: sum.splits)

lemma list_public_events_paged:
  assumes "list_public_events rx clk coll q = Paged ds n page pages"
  shows "page = parseInt_or (eq_page q) 1
       \<and> pages = ceil_div (int n) (parseInt_or (eq_limit q) 6)
       \<and> count_matching rx coll (public_events_filter clk q) = Inr n
       \<and> find_docs rx coll (public_events_filter clk q) [(''isFeatured'', False), (''date'', True)]
            ((page - 1) * parseInt_or (eq_limit q) 6) (parseInt_or (eq_limit q) 6) = Inr ds"
  using assms
  by (auto simp: list_public_events_def pagination_window_def Let_def split: sum.splits)

lemma list_practitioners_page2:
  assumes "pq_page q = Some ''2''" and "pq_limit q = Some ''10''"
    and "count_matching rx coll (practitioners_filter q) = Inr 25"
  shows "list_practitioners rx coll q
           = Paged (take 10 (drop 10 (sort_by (doc_le [(''isFeatured'', False), (''createdAt'', False)])
                                        (filter (matches rx (practitioners_filter q)) coll))))
               25 2 3"
  using assms count_matching_find [OF assms(3), of 10]
  by (simp add: list_practitioners_def pagination_window_2_10 take_limit_def ceil_div_def)

lemma list_public_events_page2:
  assumes "eq_page q = Some ''2''" and "eq_limit q = Some ''10''"
    and "count_matching rx coll (public_events_filter clk q) = Inr 25"
  shows "list_public_events rx clk coll q
           = Paged (take 10 (drop 10 (sort_by (doc_le [(''isFeatured'', False), (''date'', True)])
                                        (filter (matches rx (public_events_filter clk q)) coll))))
               25 2 3"
  using assms count_matching_find [OF assms(3), of 10]
  by (simp add: list_public_events_def pagination_window_2_10 take_limit_def ceil_div_def)

text \<open>
  C6. With \<open>page=2\<close> and \<open>limit=10\<close> and 25 matching records, the practitioner listing
  and the public event listing compute the window (page 2, limit 10, skip 10), skip the
  first 10 of the sorted matches, return at most 10 records, and report
  \<open>pagination.total = 25\<close>, \<open>pagination.page = 2\<close> and \<open>pagination.pages = 3\<close>. In
  general, whenever either listing answers with a page: \<open>page\<close> is the parsed parameter,
  1 when it is missing; the records returned are those after the first
  \<open>(page - 1) * limit\<close> sorted matches, cut at the limit; \<open>total\<close> is the number of
  matches; and \<open>pages\<close> is the ceiling of \<open>total / limit\<close>.
\<close>

theorem pagination_window_and_page_count:
  "(pq_page q = Some ''2'' \<and> pq_limit q = Some ''10''
      \<and> count_matching rx coll (practitioners_filter q) = Inr 25 \<longrightarrow>
      pagination_window (pq_page q) (pq_limit q) 10 = (2, 10, 10)
      \<and> (\<exists>ds. list_practitioners rx coll q = Paged ds 25 2 3 \<and> length ds \<le> 10
            \<and> ds = take 10 (drop 10
                     (sort_by (doc_le [(''isFeatured'', False), (''createdAt'', False)])
                        (filter (matches rx (practitioners_filter q)) coll)))))
   \<and> (eq_page eq = Some ''2'' \<and> eq_limit eq = Some ''10''
      \<and> count_matching rx ecoll (public_events_filter clk eq) = Inr 25 \<longrightarrow>
      pagination_window (eq_page eq) (eq_limit eq) 6 = (2, 10, 10)
      \<and> (\<exists>ds. list_public_events rx clk ecoll eq = Paged ds 25 2 3 \<and> length ds \<le> 10
            \<and> ds = take 10 (drop 10
                     (sort_by (doc_le [(''isFeatured'', False), (''date'', True)])
                        (filter (matches rx (public_events_filter clk eq)) ecoll)))))
   \<and> (list_practitioners rx coll q = Paged ds n page pages \<longrightarrow>
      page = parseInt_or (pq_page q) 1 \<and> (pq_page q = None \<longrightarrow> page = 1)
      \<and> 0 \<le> (page - 1) * parseInt_or (pq_limit q) 10
      \<and> ds = take_limit (parseInt_or (pq_limit q) 10)
               (drop (nat ((page - 1) * parseInt_or (pq_limit q) 10))
                  (sort_by (doc_le [(''isFeatured'', False), (''createdAt'', False)])
                     (filter (matches rx (practitioners_filter q)) coll)))
      \<and> n = length (filter (matches rx (practitioners_filter q)) coll)
      \<and> pages = \<lceil>real n / real_of_int (parseInt_or (pq_limit q) 10)\<rceil>)
   \<and> (list_public_events rx clk ecoll eq = Paged eds en epage epages \<longrightarrow>
      epage = parseInt_or (eq_page eq) 1 \<and> (eq_page eq = None \<longrightarrow> epage = 1)
      \<and> 0 \<le> (epage - 1) * parseInt_or (eq_limit eq) 6
      \<and> eds = take_limit (parseInt_or (eq_limit eq) 6)
               (drop (nat ((epage - 1) * parseInt_or (eq_limit eq) 6))
                  (sort_by (doc_le [(''isFeatured'', False), (''date'', True)])
                     (filter (matches rx (public_events_filter clk eq)) ecoll)))
      \<and> en = length (filter (matches rx (public_events_filter clk eq)) ecoll)
      \<and> epages = \<lceil>real en / real_of_int (parseInt_or (eq_limit eq) 6)\<rceil>)"
proof (intro conjI impI)
  assume a: "pq_page q = Some ''2'' \<and> pq_limit q = Some ''10''
             \<and> count_matching rx coll (practitioners_filter q) = Inr 25"
  then show "pagination_window (pq_page q) (pq_limit q) 10 = (2, 10, 10)"
    by (simp add: pagination_window_2_10)
  from a list_practitioners_page2 [of q rx coll]
  show "\<exists>ds. list_practitioners rx coll q = Paged ds 25 2 3 \<and> length ds \<le> 10
          \<and> ds = take 10 (drop 10
                   (sort_by (doc_le [(''isFeatured'', False), (''createdAt'', False)])
                      (filter (matches rx (practitioners_filter q)) coll)))"
    by simp
next
  assume a: "eq_page eq = Some ''2'' \<and> eq_limit eq = Some ''10''
             \<and> count_matching rx ecoll (public_events_filter clk eq) = Inr 25"
  then show "pagination_window (eq_page eq) (eq_limit eq) 6 = (2, 10, 10)"
    by (simp add: pagination_window_2_10)
  from a list_public_events_page2 [of eq rx ecoll clk]
  show "\<exists>ds. list_public_events rx clk ecoll eq = Paged ds 25 2 3 \<and> length ds \<le> 10
          \<and> ds = take 10 (drop 10
                   (sort_by (doc_le [(''isFeatured'', False), (''date'', True)])
                      (filter (matches rx (public_events_filter clk eq)) ecoll)))"
    by simp
next
  assume a: "list_practitioners rx coll q = Paged ds n page pages"
  note p = list_practitioners_paged [OF a]
  from p have f: "find_docs rx coll (practitioners_filter q)
                    [(''isFeatured'', False), (''createdAt'', False)]
                    ((page - 1) * parseInt_or (pq_limit q) 10) (parseInt_or (pq_limit q) 10) = Inr ds"
    and c: "count_matching rx coll (practitioners_filter q) = Inr n" by blast+
  note w = paged_window [OF f c]
  from p show "page = parseInt_or (pq_page q) 1" by simp
  then show "pq_page q = None \<Longrightarrow> page = 1"
    by (simp add: parseInt_or_def parseInt_def)
  from w show "0 \<le> (page - 1) * parseInt_or (pq_limit q) 10" by simp
  from w show "ds = take_limit (parseInt_or (pq_limit q) 10)
               (drop (nat ((page - 1) * parseInt_or (pq_limit q) 10))
                  (sort_by (doc_le [(''isFeatured'', False), (''createdAt'', False)])
                     (filter (matches rx (practitioners_filter q)) coll)))" by simp
  from w show "n = length (filter (matches rx (practitioners_filter q)) coll)" by simp
  from p show "pages = \<lceil>real n / real_of_int (parseInt_or (pq_limit q) 10)\<rceil>"
    by (simp add: ceil_div_ceiling)
next
  assume a: "list_public_events rx clk ecoll eq = Paged eds en epage epages"
  note p = list_public_events_paged [OF a]
  from p have f: "find_docs rx ecoll (public_events_filter clk eq)
                    [(''isFeatured'', False), (''date'', True)]
                    ((epage - 1) * parseInt_or (eq_limit eq) 6) (parseInt_or (eq_limit eq) 6) = Inr eds"
    and c: "count_matching rx ecoll (public_events_filter clk eq) = Inr en" by blast+
  note w = paged_window [OF f c]
  from p show "epage = parseInt_or (eq_page eq) 1" by simp
  then show "eq_page eq = None \<Longrightarrow> epage = 1"
    by (simp add: parseInt_or_def parseInt_def)
  from w show "0 \<le> (epage - 1) * parseInt_or (eq_limit eq) 6" by simp
  from w show "eds = take_limit (parseInt_or (eq_limit eq) 6)
               (drop (nat ((epage - 1) * parseInt_or (eq_limit eq) 6))
                  (sort_by (doc_le [(''isFeatured'', False), (''date'', True)])
                     (filter (matches rx (public_events_filter clk eq)) ecoll)))" by simp
  from w show "en = length (filter (matches rx (public_events_filter clk eq)) ecoll)" by simp
  from p show "epages = \<lceil>real en / real_of_int (parseInt_or (eq_limit eq) 6)\<rceil>"
    by (simp add: ceil_div_ceiling)
qed

theorem pagination_window_and_page_count_witness:
  "pq_page page2_query = Some ''2'' \<and> pq_limit page2_query = Some ''10''
   \<and> count_matching no_regex_engine (replicate 25 dietitian) (practitioners_filter page2_query)
       = Inr 25
   \<and> pagination_window (pq_page page2_query) (pq_limit page2_query) 10 = (2, 10, 10)
   \<and> (\<exists>ds. list_practitioners no_regex_engine (replicate 25 dietitian) page2_query
             = Paged ds 25 2 3 \<and> length ds \<le> 10)
   \<and> eq_page page2_event_query = Some ''2'' \<and> eq_limit page2_event_query = Some ''10''
   \<and> count_matching no_regex_engine (replicate 25 future_event)
        (public_events_filter sample_clock page2_event_query) = Inr 25
   \<and> (\<exists>ds. list_public_events no_regex_engine sample_clock (replicate 25 future_event)
              page2_event_query = Paged ds 25 2 3 \<and> length ds \<le> 10)"
proof -
  have q: "pq_page page2_query = Some ''2''" "pq_limit page2_query = Some ''10''"
    by (simp_all add: page2_query_def)
  have c: "count_matching no_regex_engine (replicate 25 dietitian)
             (practitioners_filter page2_query) = Inr 25"
    by code_simp
  have e: "eq_page page2_event_query = Some ''2''" "eq_limit page2_event_query = Some ''10''"
    by (simp_all add: page2_event_query_def)
  have ec: "count_matching no_regex_engine (replicate 25 future_event)
              (public_events_filter sample_clock page2_event_query) = Inr 25"
    by code_simp
  from q c e ec
    pagination_window_and_page_count
      [of page2_query no_regex_engine "replicate 25 dietitian" page2_event_query
          "replicate 25 future_event" sample_clock]
  show ?thesis by blast
qed

subsection \<open>Employee responses and stored password hashes\<close>

lemma select_no_password_idem:
  "select_no_password (select_no_password u) = select_no_password u"
  by (simp add: select_no_password_def)

lemma select_no_password_fields:
  "u_id (select_no_password u) = u_id u"
  "u_email (select_no_password u) = u_email u"
  "u_role (select_no_password u) = u_role u"
  "u_createdAt (select_no_password u) = u_createdAt u"
  "u_password (select_no_password u) = None"
  by (simp_all add: select_no_password_def)

lemma employee_matches_select:
  "employee_matches m q (select_no_password u) = employee_matches m q u"
  by (auto simp: employee_matches_def select_no_password_def split: option.splits)

lemma newest_first_select:
  "newest_first (select_no_password a) (select_no_password b) = newest_first a b"
  by (simp add: newest_first_def select_no_password_fields)

lemma insort_by_map:
  assumes "\<And>a b. le (f a) (f b) = le a b"
  shows "insort_by le (f x) (map f xs) = map f (insort_by le x xs)"
  by (induction xs) (simp_all add: assms)

lemma sort_by_map:
  assumes "\<And>a b. le (f a) (f b) = le a b"
  shows "sort_by le (map f xs) = map f (sort_by le xs)"
  unfolding sort_by_def by (induction xs) (simp_all add: insort_by_map assms)

lemma take_limit_map: "take_limit n (map f xs) = map f (take_limit n xs)"
  by (simp add: take_limit_def take_map)

lemma filter_map_invariant:
  assumes "\<And>x. P (f x) = P x"
  shows "filter P (map f xs) = map f (filter P xs)"
  by (induction xs) (simp_all add: assms)

lemma employee_filter_projection:
  "filter (employee_matches m q) (map select_no_password store)
   = map select_no_password (filter (employee_matches m q) store)"
  by (rule filter_map_invariant) (rule employee_matches_select)

lemma employee_sort_projection:
  "sort_by newest_first (map select_no_password us)
   = map select_no_password (sort_by newest_first us)"
  by (rule sort_by_map) (rule newest_first_select)

lemma map_select_no_password_idem:
  "map select_no_password (map select_no_password us) = map select_no_password us"
  by (simp add: select_no_password_idem)

text \<open>The listing is a function of the accounts without their passwords.\<close>

lemma listEmployees_projection:
  "listEmployees rx (map select_no_password store) q = listEmployees rx store q"
  unfolding listEmployees_def Let_def
  by (simp only: employee_filter_projection employee_sort_projection drop_map take_limit_map
        length_map map_select_no_password_idem)

lemma find_projection:
  assumes "map f s1 = map f s2" and "\<And>x. P (f x) = P x"
  shows "map_option f (find P s1) = map_option f (find P s2)"
  using assms(1)
proof (induction s1 arbitrary: s2)
  case Nil
  then show ?case by simp
next
  case (Cons a s1)
  then obtain b s2' where s2: "s2 = b # s2'" and ab: "f a = f b" and r: "map f s1 = map f s2'"
    by (cases s2) auto
  from ab assms(2) have "P a = P b" by metis
  with Cons.IH [OF r] ab s2 show ?case by simp
qed

lemma findById_projection:
  assumes "same_but_passwords s1 s2"
  shows "map_sum id (map_option select_no_password) (findById s1 i)
       = map_sum id (map_option select_no_password) (findById s2 i)"
proof (cases i)
  case None
  then show ?thesis by (simp add: findById_def)
next
  case (Some k)
  from assms have "map_option select_no_password (find (\<lambda>u. same_id (u_id u) k) s1)
                 = map_option select_no_password (find (\<lambda>u. same_id (u_id u) k) s2)"
    unfolding same_but_passwords_def
    by (rule find_projection) (simp add: select_no_password_fields)
  with Some show ?thesis by (simp add: findById_def)
qed

lemma findOne_email_projection:
  assumes "same_but_passwords s1 s2"
  shows "(findOne_email s1 e = None) = (findOne_email s2 e = None)"
proof -
  from assms have "map_option select_no_password (find (\<lambda>u. u_email u = e) s1)
                 = map_option select_no_password (find (\<lambda>u. u_email u = e) s2)"
    unfolding same_but_passwords_def
    by (rule find_projection) (simp add: select_no_password_fields)
  then show ?thesis unfolding findOne_email_def by (metis option.map_disc_iff)
qed

lemma getEmployee_same:
  assumes "same_but_passwords s1 s2"
  shows "getEmployee s1 i = getEmployee s2 i"
proof -
  note p = findById_projection [OF assms, of "Some i"]
  show ?thesis
  proof (cases "findById s1 (Some i)")
    case (Inl e)
    with p obtain e' where "findById s2 (Some i) = Inl e'" by (cases "findById s2 (Some i)") auto
    with Inl show ?thesis by (simp add: getEmployee_def)
  next
    case (Inr r1)
    with p obtain r2 where r2: "findById s2 (Some i) = Inr r2"
      and eq: "map_option select_no_password r1 = map_option select_no_password r2"
      by (cases "findById s2 (Some i)") auto
    from eq Inr r2 show ?thesis
      by (cases r1; cases r2) (simp_all add: getEmployee_def Let_def)
  qed
qed

lemma createEmployee_same:
  assumes "same_but_passwords s1 s2"
  shows "snd (createEmployee env new_id stamp s1 caller body)
       = snd (createEmployee env new_id stamp s2 caller body)"
  using findOne_email_projection [OF assms, of "the (b_email body)"]
  by (simp add: createEmployee_def Let_def split: option.splits)

lemma createEmployee_hash_free:
  "snd (createEmployee env new_id stamp s caller body)
   = snd (createEmployee (env\<lparr>hash := h\<rparr>) new_id stamp s caller body)"
  by (simp add: createEmployee_def Let_def split: option.splits)

lemma updateEmployee_same:
  assumes "same_but_passwords s1 s2"
  shows "snd (updateEmployee env s1 i body) = snd (updateEmployee env s2 i body)"
proof -
  note p = findById_projection [OF assms, of "Some i"]
  note e = findOne_email_projection [OF assms, of "the (b_email body)"]
  show ?thesis
  proof (cases "findById s1 (Some i)")
    case (Inl err)
    with p obtain e' where "findById s2 (Some i) = Inl e'" by (cases "findById s2 (Some i)") auto
    with Inl show ?thesis by (simp add: updateEmployee_def)
  next
    case (Inr r1)
    with p obtain r2 where r2: "findById s2 (Some i) = Inr r2"
      and eq: "map_option select_no_password r1 = map_option select_no_password r2"
      by (cases "findById s2 (Some i)") auto
    show ?thesis
    proof (cases r1)
      case None
      with eq have "r2 = None" by simp
      with None Inr r2 show ?thesis by (simp add: updateEmployee_def)
    next
      case (Some a)
      with eq obtain b where b: "r2 = Some b" and ab: "select_no_password a = select_no_password b"
        by (cases r2) auto
      show ?thesis
      proof (cases "findOne_email s1 (the (b_email body))")
        case None
        with e have "findOne_email s2 (the (b_email body)) = None" by simp
        with None Some b ab Inr r2 show ?thesis
          by (simp add: updateEmployee_def Let_def split: option.splits)
      next
        case (Some x)
        with e obtain y where "findOne_email s2 (the (b_email body)) = Some y" by auto
        with Some \<open>r1 = Some a\<close> b ab Inr r2 show ?thesis
          by (simp add: updateEmployee_def Let_def split: option.splits)
      qed
    qed
  qed
qed

lemma listEmployees_no_password:
  "u \<in> set (response_accounts (snd (listEmployees rx s q))) \<Longrightarrow> u_password u = None"
  by (auto simp: listEmployees_def Let_def select_no_password_fields
        split: if_splits option.splits prod.splits)

lemma getEmployee_no_password:
  "u \<in> set (response_accounts (snd (getEmployee s i))) \<Longrightarrow> u_password u = None"
  by (auto simp: getEmployee_def Let_def select_no_password_fields
        split: if_splits option.splits sum.splits)

lemma createEmployee_no_password:
  "u \<in> set (response_accounts (snd (snd (createEmployee env new_id stamp s caller body))))
   \<Longrightarrow> u_password u = None"
  by (auto simp: createEmployee_def Let_def split: if_splits option.splits)

lemma updateEmployee_no_password:
  "u \<in> set (response_accounts (snd (snd (updateEmployee env s i body))))
   \<Longrightarrow> u_password u = None"
  by (auto simp: updateEmployee_def Let_def split: if_splits option.splits sum.splits)

text \<open>
  C10. The responses of the employee list, single-get, create and update endpoints carry
  no password: every account in them has the password path removed. And they do not
  depend on the stored hashes: two stores that hold the same accounts, differing at most
  in the stored password hashes, get identical responses from each of the four, and the
  create response is the same whatever hash the pre-save hook computes.
\<close>

theorem employee_responses_hide_password_hashes:
  "(same_but_passwords s1 s2 \<longrightarrow>
      listEmployees rx s1 q = listEmployees rx s2 q
      \<and> getEmployee s1 i = getEmployee s2 i
      \<and> snd (createEmployee env new_id stamp s1 caller body)
          = snd (createEmployee env new_id stamp s2 caller body)
      \<and> snd (updateEmployee env s1 i body) = snd (updateEmployee env s2 i body))
   \<and> snd (createEmployee env new_id stamp s1 caller body)
       = snd (createEmployee (env\<lparr>hash := h\<rparr>) new_id stamp s1 caller body)
   \<and> (\<forall>u \<in> set (response_accounts (snd (listEmployees rx s1 q)))
            \<union> set (response_accounts (snd (getEmployee s1 i)))
            \<union> set (response_accounts (snd (snd (createEmployee env new_id stamp s1 caller body))))
            \<union> set (response_accounts (snd (snd (updateEmployee env s1 i body)))).
        u_password u = None)"
proof (intro conjI impI ballI)
  assume a: "same_but_passwords s1 s2"
  then have "map select_no_password s1 = map select_no_password s2"
    by (simp add: same_but_passwords_def)
  then show "listEmployees rx s1 q = listEmployees rx s2 q"
    using listEmployees_projection [of rx s1 q] listEmployees_projection [of rx s2 q] by simp
  from a show "getEmployee s1 i = getEmployee s2 i" by (rule getEmployee_same)
  from a show "snd (createEmployee env new_id stamp s1 caller body)
             = snd (createEmployee env new_id stamp s2 caller body)"
    by (rule createEmployee_same)
  from a show "snd (updateEmployee env s1 i body) = snd (updateEmployee env s2 i body)"
    by (rule updateEmployee_same)
next
  show "snd (createEmployee env new_id stamp s1 caller body)
      = snd (createEmployee (env\<lparr>hash := h\<rparr>) new_id stamp s1 caller body)"
    by (rule createEmployee_hash_free)
next
  fix u
  assume "u \<in> set (response_accounts (snd (listEmployees rx s1 q)))
            \<union> set (response_accounts (snd (getEmployee s1 i)))
            \<union> set (response_accounts (snd (snd (createEmployee env new_id stamp s1 caller body))))
            \<union> set (response_accounts (snd (snd (updateEmployee env s1 i body))))"
  then show "u_password u = None"
    using listEmployees_no_password getEmployee_no_password createEmployee_no_password
      updateEmployee_no_password
    by blast
qed

theorem employee_responses_hide_password_hashes_witness:
  "same_but_passwords [ada, sam] [ada\<lparr>u_password := Some ''$2a$10$other''\<rparr>, sam]
   \<and> listEmployees no_regex_engine [ada, sam] everyone
       = listEmployees no_regex_engine [ada\<lparr>u_password := Some ''$2a$10$other''\<rparr>, sam] everyone
   \<and> getEmployee [ada, sam] (u_id ada)
       = getEmployee [ada\<lparr>u_password := Some ''$2a$10$other''\<rparr>, sam] (u_id ada)
   \<and> snd (createEmployee accept_all ''0123456789abcdef012345ff'' 200 [ada, sam]
             (principal_of ada) new_body)
       = snd (createEmployee accept_all ''0123456789abcdef012345ff'' 200
                [ada\<lparr>u_password := Some ''$2a$10$other''\<rparr>, sam] (principal_of ada) new_body)
   \<and> snd (updateEmployee accept_all [ada, sam] (u_id sam) rename_body)
       = snd (updateEmployee accept_all [ada\<lparr>u_password := Some ''$2a$10$other''\<rparr>, sam]
                (u_id sam) rename_body)
   \<and> map u_password (response_accounts (snd (listEmployees no_regex_engine [ada, sam] everyone)))
       = [None, None]"
proof -
  have h: "same_but_passwords [ada, sam] [ada\<lparr>u_password := Some ''$2a$10$other''\<rparr>, sam]"
    by (simp add: same_but_passwords_def select_no_password_def)
  have l: "map u_password (response_accounts (snd (listEmployees no_regex_engine [ada, sam] everyone)))
           = [None, None]"
    by code_simp
  from h l
    employee_responses_hide_password_hashes
      [of "[ada, sam]" "[ada\<lparr>u_password := Some ''$2a$10$other''\<rparr>, sam]"
          no_regex_engine everyone "u_id ada" accept_all "''0123456789abcdef012345ff''" 200
          "principal_of ada" new_body]
    employee_responses_hide_password_hashes
      [of "[ada, sam]" "[ada\<lparr>u_password := Some ''$2a$10$other''\<rparr>, sam]"
          no_regex_engine everyone "u_id sam" accept_all "''0123456789abcdef012345ff''" 200
          "principal_of ada" rename_body]
  show ?thesis by blast
qed

subsection \<open>Event update\<close>

lemma get_set_path:
  "get_path (set_path k v d) k' = (if k' = k then Some v else get_path d k')"
  unfolding get_path_def by (induction d) auto

lemma find_replace_first:
  assumes "find P xs = Some x" and "\<And>y. P (f y) = P y"
  shows "find P (replace_first P f xs) = Some (f x)"
  using assms(1) by (induction xs) (auto simp: assms(2) split: if_splits)

lemma status_only_updateData:
  "build_updateData parse_date caller [(''status'', JStr ''cancelled'')]
   = Inr [(''status'', JStr ''cancelled''), (''updatedBy'', JId (p_id caller))]"
  by (simp add: build_updateData_def add_trimmed_def add_with_def get_path_def)

lemma status_only_cast:
  "cast_update show_num (strict_paths event_schema_paths
     [(''status'', JStr ''cancelled''), (''updatedBy'', JId c)])
   = Inr [(''status'', JStr ''cancelled'')]"
  by (simp add: strict_paths_def event_schema_paths_def cast_path_def cast_string_def)

lemma status_only_valid:
  "validate_path valid_url (''status'', JStr ''cancelled'') = []"
  by (simp add: validate_path_def not_in_enum_def)

text \<open>
  What the update does with \<open>{status: "cancelled"}\<close>, for every event and caller: the
  stored event gets the status and a fresh \<open>updatedAt\<close>; every other path, \<open>updatedBy\<close>
  among them, is as before.
\<close>

lemma update_event_status_only:
  fixes stamp :: int
  assumes "castable i" and "find (has_id i) coll = Some event"
  defines "change \<equiv> \<lambda>d. set_path ''updatedAt'' (JDate stamp)
                          (set_path ''status'' (JStr ''cancelled'') d)"
  shows "updateEvent parse_date show_num valid_url stamp coll caller i
           [(''status'', JStr ''cancelled'')]
         = (replace_first (has_id i) change coll, 200,
            EventData ''Event updated successfully'' (Some (change event)))"
    and "get_path (change event) ''status'' = Some (JStr ''cancelled'')"
    and "k \<noteq> ''status'' \<Longrightarrow> k \<noteq> ''updatedAt'' \<Longrightarrow> get_path (change event) k = get_path event k"
    and "get_path (change event) ''updatedBy'' = get_path event ''updatedBy''"
proof -
  have keep: "\<And>d. has_id i (change d) = has_id i d"
    by (simp add: has_id_def change_def get_set_path)
  have ch: "(\<lambda>d. set_path ''updatedAt'' (JDate stamp)
                 (apply_set [(''status'', JStr ''cancelled'')] d)) = change"
    by (simp add: change_def apply_set_def)
  from find_replace_first [OF assms(2) keep]
  have "find (has_id i) (replace_first (has_id i) change coll) = Some (change event)" .
  with assms(1,2) ch
  show "updateEvent parse_date show_num valid_url stamp coll caller i
           [(''status'', JStr ''cancelled'')]
         = (replace_first (has_id i) change coll, 200,
            EventData ''Event updated successfully'' (Some (change event)))"
    by (simp add: updateEvent_def findByIdAndUpdate_def status_only_updateData
          status_only_cast status_only_valid Let_def)
  show "get_path (change event) ''status'' = Some (JStr ''cancelled'')"
    by (simp add: change_def get_set_path)
  show "k \<noteq> ''status'' \<Longrightarrow> k \<noteq> ''updatedAt'' \<Longrightarrow> get_path (change event) k = get_path event k"
    by (simp add: change_def get_set_path)
  show "get_path (change event) ''updatedBy'' = get_path event ''updatedBy''"
    by (simp add: change_def get_set_path)
qed

text \<open>
  C4. On the sample event, updated by Ada with the body \<open>{status: "cancelled"}\<close>: the
  handler puts \<open>updatedBy\<close>, Ada's identifier, into \<open>updateData\<close>; the stored event
  and the event in the response differ from the old one in \<open>status\<close> and \<open>updatedAt\<close>
  only; and neither has an \<open>updatedBy\<close>, because the schema has no such path and the
  update drops the key.
\<close>

theorem update_event_loses_updatedBy:
  "build_updateData no_date (principal_of ada) [(''status'', JStr ''cancelled'')]
     = Inr [(''status'', JStr ''cancelled''), (''updatedBy'', JId (u_id ada))]
   \<and> updateEventRoute no_date no_show no_url 9000 [workshop] (as_caller ada)
       ''0123456789abcdef01234580'' [(''status'', JStr ''cancelled'')]
     = ([set_path ''updatedAt'' (JDate 9000) (set_path ''status'' (JStr ''cancelled'') workshop)],
        200,
        EventData ''Event updated successfully''
          (Some (set_path ''updatedAt'' (JDate 9000)
                   (set_path ''status'' (JStr ''cancelled'') workshop))))
   \<and> get_path (set_path ''updatedAt'' (JDate 9000)
                 (set_path ''status'' (JStr ''cancelled'') workshop)) ''updatedBy'' = None
   \<and> get_path (set_path ''updatedAt'' (JDate 9000)
                 (set_path ''status'' (JStr ''cancelled'') workshop)) ''status''
       = Some (JStr ''cancelled'')
   \<and> map (get_path (set_path ''updatedAt'' (JDate 9000)
                      (set_path ''status'' (JStr ''cancelled'') workshop)))
         [''title'', ''description'', ''date'', ''time'', ''location'', ''type'', ''isFeatured'',
          ''registeredAttendees'', ''imageUrl'', ''registrationUrl'', ''organizer'']
     = map (get_path workshop)
         [''title'', ''description'', ''date'', ''time'', ''location'', ''type'', ''isFeatured'',
          ''registeredAttendees'', ''imageUrl'', ''registrationUrl'', ''organizer'']"
  by code_simp

end
